theory Spec2Isabelle
  imports Complex_Main "HOL-Library.List_Lexorder" "HOL-Library.Code_Target_Nat"
begin

section \<open>JavaScript values and the built-ins the handlers call\<close>

text \<open>
  A JavaScript string is modelled as the list of its Unicode code points.  Every
  built-in used by the handlers (\<^verbatim>\<open>trim\<close>, \<^verbatim>\<open>RegExp.test\<close>, \<^verbatim>\<open>parseInt\<close>)
  looks only at code points of the Basic Multilingual Plane, so nothing depends on
  the UTF-16 encoding.  \<open>str\<close> turns an ASCII literal into such a list.
\<close>

type_synonym jsstring = "nat list"

definition str :: "string \<Rightarrow> jsstring" where
  "str s = map of_char s"

text \<open>
  WhiteSpace and LineTerminator of ECMAScript: TAB, LF, VT, FF, CR, SP, NBSP,
  U+1680, U+2000..U+200A, U+2028, U+2029, U+202F, U+205F, U+3000, U+FEFF.
\<close>

definition is_ws :: "nat \<Rightarrow> bool" where
  "is_ws c \<longleftrightarrow>
     c \<in> set [9, 10, 11, 12, 13, 32, 160, 5760, 8232, 8233, 8239, 8287, 12288, 65279]
     \<or> (8192 \<le> c \<and> c \<le> 8202)"

text \<open>\<^verbatim>\<open>String.prototype.trim\<close>: white space is removed from both ends.\<close>

definition trim :: "jsstring \<Rightarrow> jsstring" where
  "trim s = rev (dropWhile is_ws (rev (dropWhile is_ws s)))"

text \<open>
  The only regular expression of the repository is \<^verbatim>\<open>/^91\d{10}$/\<close>: a sequence of
  atoms, each consuming one character, anchored at both ends.  Without the \<^verbatim>\<open>m\<close>
  flag \<^verbatim>\<open>$\<close> matches at the very end of the input only, and without the \<^verbatim>\<open>u\<close>
  flag \<^verbatim>\<open>\d\<close> is \<^verbatim>\<open>[0-9]\<close>.
\<close>

datatype atom = Lit nat | Digit

fun atom_ok :: "atom \<Rightarrow> nat \<Rightarrow> bool" where
  "atom_ok (Lit k) c \<longleftrightarrow> c = k"
| "atom_ok Digit c \<longleftrightarrow> 48 \<le> c \<and> c \<le> 57"

fun match_anchored :: "atom list \<Rightarrow> jsstring \<Rightarrow> bool" where
  "match_anchored [] [] \<longleftrightarrow> True"
| "match_anchored (a # as) (c # cs) \<longleftrightarrow> atom_ok a c \<and> match_anchored as cs"
| "match_anchored _ _ \<longleftrightarrow> False"

definition whatsapp_re :: "atom list" where
  "whatsapp_re = [Lit 57, Lit 49] @ replicate 10 Digit"

definition whatsapp_test :: "jsstring \<Rightarrow> bool" where
  "whatsapp_test s = match_anchored whatsapp_re s"

text \<open>
  JavaScript numbers are doubles.  The numbers the handlers compute with are
  integers or infinities: \<^verbatim>\<open>parseInt\<close> returns an integer-valued double, an
  infinity, or NaN.  They are ordered as numbers are.
\<close>

datatype jsint = NegInfinity | Finite int | PosInfinity

instantiation jsint :: linorder
begin

fun less_eq_jsint :: "jsint \<Rightarrow> jsint \<Rightarrow> bool" where
  "less_eq_jsint NegInfinity y \<longleftrightarrow> True"
| "less_eq_jsint (Finite a) NegInfinity \<longleftrightarrow> False"
| "less_eq_jsint (Finite a) (Finite b) \<longleftrightarrow> a \<le> b"
| "less_eq_jsint (Finite a) PosInfinity \<longleftrightarrow> True"
| "less_eq_jsint PosInfinity PosInfinity \<longleftrightarrow> True"
| "less_eq_jsint PosInfinity y \<longleftrightarrow> False"

definition less_jsint :: "jsint \<Rightarrow> jsint \<Rightarrow> bool" where
  "less_jsint x y \<longleftrightarrow> x \<le> y \<and> \<not> y \<le> x"

instance
proof
  fix x y z :: jsint
  show "x < y \<longleftrightarrow> x \<le> y \<and> \<not> y \<le> x"
    by (simp add: less_jsint_def)
  show "x \<le> x"
    by (cases x) simp_all
  show "x \<le> y \<Longrightarrow> y \<le> z \<Longrightarrow> x \<le> z"
    by (cases x; cases y; cases z) simp_all
  show "x \<le> y \<Longrightarrow> y \<le> x \<Longrightarrow> x = y"
    by (cases x; cases y) simp_all
  show "x \<le> y \<or> y \<le> x"
    by (cases x; cases y) auto
qed

end

text \<open>
  The double nearest to a natural number, as a natural number: a number below
  \<open>2^53 = 9007199254740992\<close> is a double; a larger one keeps its 53 leading
  bits, rounded to nearest, ties to the even one.  A result of more than 1024 bits, that is, from \<open>2^1024\<close> on, stands for
  an infinity.
\<close>

fun bit_length :: "nat \<Rightarrow> nat" where
  "bit_length n = (if n = 0 then 0 else Suc (bit_length (n div 2)))"

declare bit_length.simps [simp del]

definition round_double :: "nat \<Rightarrow> nat" where
  "round_double n =
     (if n < 9007199254740992 then n
      else
        (let e = bit_length n - 53; q = n div 2 ^ e; r = n mod 2 ^ e in
         if 2 ^ (e - 1) < r \<or> (r = 2 ^ (e - 1) \<and> odd q) then (q + 1) * 2 ^ e
         else q * 2 ^ e))"

definition to_number :: "int \<Rightarrow> nat \<Rightarrow> jsint" where
  "to_number sign n =
     (if 1024 < bit_length (round_double n) then (if sign < 0 then NegInfinity else PosInfinity)
      else Finite (sign * int (round_double n)))"

text \<open>
  \<^verbatim>\<open>parseInt(string)\<close> with no radix: leading white space is skipped, one sign is
  read, a \<^verbatim>\<open>0x\<close>/\<^verbatim>\<open>0X\<close> prefix selects radix 16, then the longest run of digits is
  read.  No digit at all gives NaN, which is \<open>None\<close> here.  Otherwise the result is
  the double nearest to the integer read (the engine of Node.js rounds correctly),
  with the sign.
\<close>

definition digit_val :: "nat \<Rightarrow> nat option" where
  "digit_val c =
     (if 48 \<le> c \<and> c \<le> 57 then Some (c - 48)
      else if 97 \<le> c \<and> c \<le> 102 then Some (c - 87)
      else if 65 \<le> c \<and> c \<le> 70 then Some (c - 55)
      else None)"

definition is_digit :: "nat \<Rightarrow> nat \<Rightarrow> bool" where
  "is_digit radix c = (case digit_val c of None \<Rightarrow> False | Some v \<Rightarrow> v < radix)"

definition digits_value :: "nat \<Rightarrow> jsstring \<Rightarrow> nat" where
  "digits_value radix ds = foldl (\<lambda>acc c. acc * radix + the (digit_val c)) 0 ds"

definition parseInt :: "jsstring \<Rightarrow> jsint option" where
  "parseInt s =
     (let s1 = dropWhile is_ws s;
          sign = (if take 1 s1 = [45] then - 1 else 1 :: int);
          s2 = (if take 1 s1 = [45] \<or> take 1 s1 = [43] then drop 1 s1 else s1);
          hex = (take 2 s2 = [48, 120] \<or> take 2 s2 = [48, 88]);
          radix = (if hex then 16 else 10);
          s3 = (if hex then drop 2 s2 else s2);
          z = takeWhile (is_digit radix) s3
      in if z = [] then None else Some (to_number sign (digits_value radix z)))"

datatype exn =
    TypeError | ValidationError | CastError | DuplicateKey | MongoError
  | CloudinaryError | GitHubError

text \<open>
  A value found in a request body.  The handlers observe a body field in five ways
  only: its truthiness (\<^verbatim>\<open>!x\<close>); its string conversion (\<^verbatim>\<open>regex.test(x)\<close>,
  \<^verbatim>\<open>parseInt(x)\<close>), which throws a TypeError on an object that has no usable
  \<^verbatim>\<open>toString\<close> (the JSON object \<^verbatim>\<open>{"toString": 1}\<close>, the object without
  prototype that the multipart parser builds for a field \<^verbatim>\<open>whatsapp[x]\<close>); the
  call \<^verbatim>\<open>x.trim()\<close>, which exists on strings only; the cast of the field to the
  String type of the schema, which fails on arrays and plain objects but takes the
  \<^verbatim>\<open>_id\<close> of an object that has a string \<^verbatim>\<open>_id\<close>; and storing it as it is.

  So a value that is neither a string nor missing (null, a boolean, a number, an
  array, an object) is represented by its truthiness, its string conversion
  (\<open>None\<close> when the conversion throws) and the string it casts to (\<open>None\<close> when
  it does not cast).
\<close>

datatype jsval = JUndefined | JStr jsstring | JOther bool "jsstring option" "jsstring option"

fun truthy :: "jsval \<Rightarrow> bool" where
  "truthy JUndefined \<longleftrightarrow> False"
| "truthy (JStr s) \<longleftrightarrow> s \<noteq> []"
| "truthy (JOther t s c) \<longleftrightarrow> t"

fun ToString :: "jsval \<Rightarrow> exn + jsstring" where
  "ToString JUndefined = Inr (str ''undefined'')"
| "ToString (JStr s) = Inr s"
| "ToString (JOther t None c) = Inl TypeError"
| "ToString (JOther t (Some s) c) = Inr s"

text \<open>\<^verbatim>\<open>regex.test(x)\<close> and \<^verbatim>\<open>parseInt(x)\<close> convert their argument first.\<close>

definition regex_test :: "jsval \<Rightarrow> exn + bool" where
  "regex_test x = (case ToString x of Inl err \<Rightarrow> Inl err | Inr s \<Rightarrow> Inr (whatsapp_test s))"

definition js_parseInt :: "jsval \<Rightarrow> exn + jsint option" where
  "js_parseInt x = (case ToString x of Inl err \<Rightarrow> Inl err | Inr s \<Rightarrow> Inr (parseInt s))"

text \<open>\<^verbatim>\<open>x.trim()\<close>: a TypeError on anything but a string.\<close>

fun js_trim :: "jsval \<Rightarrow> exn + jsstring" where
  "js_trim (JStr s) = Inr (trim s)"
| "js_trim x = Inl TypeError"

text \<open>The cast of Mongoose to the schema type String; \<open>None\<close> when there is no string.\<close>

fun cast_string :: "jsval \<Rightarrow> jsstring option" where
  "cast_string JUndefined = None"
| "cast_string (JStr s) = Some s"
| "cast_string (JOther t s c) = c"

section \<open>The document-store implementation (server.js)\<close>

subsection \<open>Listings, the database and the image host\<close>

type_synonym oid = nat

record product =
  pid :: oid
  name :: jsstring
  price :: jsint
  seller :: jsstring
  whatsapp :: jsstring
  condition :: jsstring
  description :: jsstring
  imagePath :: jsstring
  imagePublicId :: "jsstring option"
  dateAdded :: nat
  isActive :: bool

text \<open>
  The state outside the process: the \<^verbatim>\<open>products\<close> collection, in insertion order,
  and the public ids of the images held by the image host.  Either service may be
  unreachable.  \<open>db_writes\<close> counts the write operations (\<^verbatim>\<open>save\<close>,
  \<^verbatim>\<open>findByIdAndUpdate\<close>, \<^verbatim>\<open>findByIdAndDelete\<close>) the handlers have called,
  whether or not they went through.
\<close>

record world =
  db_up :: bool
  docs :: "product list"
  db_writes :: nat
  cloud_up :: bool
  images :: "jsstring set"

text \<open>
  What a request gets from outside: the clock (milliseconds), the ObjectId the
  driver generates for a new document, and what the image host answers when the
  request uploads an image: \<^verbatim>\<open>secure_url\<close> and \<^verbatim>\<open>public_id\<close>, or \<open>None\<close>
  when the host refuses the upload (a format it does not allow, data that is no
  image).
\<close>

record env =
  now :: nat
  new_id :: oid
  upload_result :: "(jsstring \<times> jsstring) option"

text \<open>
  The path parameter \<^verbatim>\<open>:id\<close> is a string; Mongoose casts it to an ObjectId and
  throws a CastError when it cannot.
\<close>

datatype idparam = ObjectId oid | Uncastable

definition conditions :: "jsstring list" where
  "conditions = [str ''Brand New'', str ''Like New'', str ''Excellent'', str ''Good'', str ''Fair'']"

text \<open>The validators of \<^verbatim>\<open>productSchema\<close>: required, min, match, enum.\<close>

definition validate :: "product \<Rightarrow> bool" where
  "validate p \<longleftrightarrow>
     name p \<noteq> [] \<and> Finite 1 \<le> price p \<and> seller p \<noteq> [] \<and> whatsapp_test (whatsapp p)
     \<and> condition p \<in> set conditions \<and> description p \<noteq> [] \<and> imagePath p \<noteq> []"

text \<open>The object literal \<^verbatim>\<open>productData\<close> of the two create handlers.\<close>

record product_data =
  d_name :: jsstring
  d_price :: "jsint option"
  d_seller :: jsstring
  d_whatsapp :: jsstring
  d_condition :: jsval
  d_description :: jsstring
  d_imagePath :: jsstring
  d_imagePublicId :: jsstring

text \<open>
  \<^verbatim>\<open>new Product(productData)\<close>: the schema casts each field, applies the
  \<^verbatim>\<open>trim\<close> setters and the defaults of \<^verbatim>\<open>dateAdded\<close> and \<^verbatim>\<open>isActive\<close>.
  NaN is no Number (an infinity is one); the condition must cast to a string.  A
  field that does not cast fails the validation of \<^verbatim>\<open>save\<close>, which is \<open>None\<close>
  here.
\<close>

definition new_Product :: "env \<Rightarrow> product_data \<Rightarrow> product option" where
  "new_Product e d =
     (case (d_price d, cast_string (d_condition d)) of
        (Some n, Some c) \<Rightarrow>
          Some \<lparr>pid = new_id e, name = trim (d_name d), price = n,
                seller = trim (d_seller d), whatsapp = d_whatsapp d, condition = c,
                description = trim (d_description d), imagePath = d_imagePath d,
                imagePublicId = Some (d_imagePublicId d), dateAdded = now e,
                isActive = True\<rparr>
      | _ \<Rightarrow> None)"

definition Product_save :: "env \<Rightarrow> product_data \<Rightarrow> world \<Rightarrow> (exn + product) \<times> world" where
  "Product_save e d w =
     (let w1 = w\<lparr>db_writes := Suc (db_writes w)\<rparr> in
      case new_Product e d of
        None \<Rightarrow> (Inl ValidationError, w1)
      | Some p \<Rightarrow>
          if \<not> validate p then (Inl ValidationError, w1)
          else if \<not> db_up w then (Inl MongoError, w1)
          else if pid p \<in> set (map pid (docs w)) then (Inl DuplicateKey, w1)
          else (Inr p, w1\<lparr>docs := docs w @ [p]\<rparr>))"

definition Product_findById :: "idparam \<Rightarrow> world \<Rightarrow> exn + product option" where
  "Product_findById ip w =
     (case ip of
        Uncastable \<Rightarrow> Inl CastError
      | ObjectId i \<Rightarrow>
          if \<not> db_up w then Inl MongoError else Inr (find (\<lambda>p. pid p = i) (docs w)))"

fun delete_first :: "oid \<Rightarrow> product list \<Rightarrow> product list" where
  "delete_first i [] = []"
| "delete_first i (p # ps) = (if pid p = i then ps else p # delete_first i ps)"

definition Product_findByIdAndDelete :: "idparam \<Rightarrow> world \<Rightarrow> (exn + unit) \<times> world" where
  "Product_findByIdAndDelete ip w =
     (let w1 = w\<lparr>db_writes := Suc (db_writes w)\<rparr> in
      case ip of
        Uncastable \<Rightarrow> (Inl CastError, w1)
      | ObjectId i \<Rightarrow>
          if \<not> db_up w then (Inl MongoError, w1)
          else (Inr (), w1\<lparr>docs := delete_first i (docs w)\<rparr>))"

text \<open>\<^verbatim>\<open>cloudinary.uploader.destroy(publicId)\<close>\<close>

definition cloudinary_destroy :: "jsstring \<Rightarrow> world \<Rightarrow> (exn + unit) \<times> world" where
  "cloudinary_destroy k w =
     (if cloud_up w then (Inr (), w\<lparr>images := images w - {k}\<rparr>) else (Inl CloudinaryError, w))"

text \<open>
  An upload to the image host, by the upload middleware of the multipart route or
  by \<^verbatim>\<open>cloudinary.uploader.upload(imageBase64, ...)\<close>.
\<close>

definition cloudinary_upload :: "env \<Rightarrow> world \<Rightarrow> (exn + jsstring \<times> jsstring) \<times> world" where
  "cloudinary_upload e w =
     (if \<not> cloud_up w then (Inl CloudinaryError, w)
      else case upload_result e of
             None \<Rightarrow> (Inl CloudinaryError, w)
           | Some uploaded \<Rightarrow> (Inr uploaded, w\<lparr>images := insert (snd uploaded) (images w)\<rparr>))"

subsection \<open>Responses\<close>

text \<open>
  Values of the statistics handler: a Mongoose query is an object that runs only
  when it is awaited; its result is a number, an array of strings or an array of
  groups, each with its average (a number, an infinity or NaN).
\<close>

datatype mquery = CountActive | DistinctSeller | AvgActivePrice

datatype jsres =
    Undefined | Number rat | Infinite bool | NotANumber
  | Strings "jsstring list" | Groups "jsres list" | Pending mquery

text \<open>
  The JSON bodies: \<^verbatim>\<open>{error}\<close>, \<^verbatim>\<open>{message}\<close>, a listing, an array of
  listings, \<^verbatim>\<open>{status, timestamp, database}\<close> and
  \<^verbatim>\<open>{totalProducts, totalSellers, averagePrice}\<close>, where a member that is
  \<^verbatim>\<open>undefined\<close> is dropped when the body is serialised and an infinite one is
  written as null; so is an infinite price of a listing.
\<close>

datatype body =
    Error string
  | Message string
  | Product product
  | Products "product list"
  | Health string nat string
  | Stats jsres jsres jsres

record 'b response =
  status :: nat
  body :: 'b

definition respond :: "nat \<Rightarrow> 'b \<Rightarrow> 'b response" where
  "respond st b = \<lparr>status = st, body = b\<rparr>"

subsection \<open>Requests\<close>

text \<open>The text fields of a create request (\<^verbatim>\<open>req.body\<close>).\<close>

record create_body =
  b_name :: jsval
  b_price :: jsval
  b_seller :: jsval
  b_whatsapp :: jsval
  b_condition :: jsval
  b_description :: jsval

text \<open>
  A multipart request has the text fields and, possibly, an \<^verbatim>\<open>image\<close> part.
  \<^verbatim>\<open>req.file\<close> is what the upload middleware leaves to the handler: nothing when
  the form had no \<^verbatim>\<open>image\<close> part, otherwise the URL (\<^verbatim>\<open>path\<close>) and the public
  id (\<^verbatim>\<open>filename\<close>) of the image, which is on the image host by then.
\<close>

record file_info =
  path :: jsstring
  filename :: jsstring

record mp_request =
  mp_body :: create_body
  mp_image :: bool

record b64_request =
  b64_body :: create_body
  imageBase64 :: jsval

text \<open>
  The query string of the listing query.  Each parameter is absent or a string;
  repeated and bracketed parameters, which Express parses to arrays and objects,
  are outside the model.
\<close>

record query =
  q_search :: "jsstring option"
  q_minPrice :: "jsstring option"
  q_maxPrice :: "jsstring option"
  q_condition :: "jsstring option"
  q_sort :: "jsstring option"

definition given :: "jsstring option \<Rightarrow> bool" where
  "given x \<longleftrightarrow> x \<noteq> None \<and> x \<noteq> Some []"

text \<open>
  The body of an update is passed whole to \<^verbatim>\<open>findByIdAndUpdate\<close>.  Its keys
  that are fields of the schema are given field by field, as the schema casts them:
  the field is not in the body, or it is there with a value of the field's type, or
  it is there with a value that does not cast.  Prices are integers or infinities;
  keys the schema does not have are dropped by Mongoose.  Its update operators
  (\<^verbatim>\<open>$set\<close>, \<^verbatim>\<open>$unset\<close>, \<^verbatim>\<open>$rename\<close>, \<^verbatim>\<open>$inc\<close>, \<^verbatim>\<open>$currentDate\<close>, ...)
  are given as the list of their clauses, each with the operator, the path it is
  applied to and its argument: \<^verbatim>\<open>{"$rename": {"name": "title"}}\<close> is the clause
  \<open>Clause $rename name title\<close>.
\<close>

datatype 'a upd = Absent | Set 'a | Invalid

datatype clause = Clause jsstring jsstring jsval

record update_body =
  u_id :: "oid upd"
  u_name :: "jsstring upd"
  u_price :: "jsint upd"
  u_seller :: "jsstring upd"
  u_whatsapp :: "jsstring upd"
  u_condition :: "jsstring upd"
  u_description :: "jsstring upd"
  u_imagePath :: "jsstring upd"
  u_imagePublicId :: "jsstring upd"
  u_dateAdded :: "nat upd"
  u_isActive :: "bool upd"
  u_clauses :: "clause list"

subsection \<open>GET /api/products\<close>

text \<open>
  The filter object \<^verbatim>\<open>query\<close> and the \<^verbatim>\<open>sortOption\<close> the handler builds.
  A price bound is the result of \<^verbatim>\<open>parseInt\<close>, so it may be NaN (\<open>None\<close>).
\<close>

record mongo_filter =
  f_isActive :: bool
  f_or_regex :: "jsstring option"
  f_gte :: "jsint option option"
  f_lte :: "jsint option option"
  f_condition :: "jsstring option"

datatype sortopt = DateAddedDesc | PriceAsc | PriceDesc | NameAsc

definition build_filter :: "query \<Rightarrow> mongo_filter" where
  "build_filter q =
     \<lparr>f_isActive = True,
      f_or_regex = (if given (q_search q) then q_search q else None),
      f_gte = (if given (q_minPrice q) then Some (parseInt (the (q_minPrice q))) else None),
      f_lte = (if given (q_maxPrice q) then Some (parseInt (the (q_maxPrice q))) else None),
      f_condition = (if given (q_condition q) then q_condition q else None)\<rparr>"

definition build_sort :: "query \<Rightarrow> sortopt" where
  "build_sort q =
     (let s0 = DateAddedDesc;
          s1 = (if q_sort q = Some (str ''price_low'') then PriceAsc else s0);
          s2 = (if q_sort q = Some (str ''price_high'') then PriceDesc else s1);
          s3 = (if q_sort q = Some (str ''name'') then NameAsc else s2)
      in s3)"

text \<open>
  The database evaluates the filter and sorts.  Its regular-expression engine is a
  parameter \<open>rx\<close>: \<open>rx pat\<close> is \<open>None\<close> when the pattern does not compile, and
  otherwise the case-insensitive search predicate of the pattern.  Strings are
  compared code point by code point (the simple binary collation); a bound that is
  NaN does not cast to the Number type of \<^verbatim>\<open>price\<close>.
\<close>

definition satisfies :: "(jsstring \<Rightarrow> bool) option \<Rightarrow> mongo_filter \<Rightarrow> product \<Rightarrow> bool" where
  "satisfies hit f p \<longleftrightarrow>
     isActive p = f_isActive f
     \<and> (case hit of None \<Rightarrow> True
         | Some h \<Rightarrow> h (name p) \<or> h (description p) \<or> h (seller p))
     \<and> (case f_gte f of Some (Some lo) \<Rightarrow> lo \<le> price p | _ \<Rightarrow> True)
     \<and> (case f_lte f of Some (Some hi) \<Rightarrow> price p \<le> hi | _ \<Rightarrow> True)
     \<and> (case f_condition f of Some c \<Rightarrow> condition p = c | None \<Rightarrow> True)"

fun mongo_sort :: "sortopt \<Rightarrow> product list \<Rightarrow> product list" where
  "mongo_sort PriceAsc ps = sort_key price ps"
| "mongo_sort PriceDesc ps = rev (sort_key price ps)"
| "mongo_sort NameAsc ps = sort_key name ps"
| "mongo_sort DateAddedDesc ps = rev (sort_key dateAdded ps)"

definition Product_find ::
  "(jsstring \<Rightarrow> (jsstring \<Rightarrow> bool) option) \<Rightarrow> mongo_filter \<Rightarrow> sortopt \<Rightarrow> world \<Rightarrow> exn + product list" where
  "Product_find rx f srt w =
     (if f_gte f = Some None \<or> f_lte f = Some None then Inl CastError
      else if \<not> db_up w then Inl MongoError
      else case f_or_regex f of
             None \<Rightarrow> Inr (mongo_sort srt (filter (satisfies None f) (docs w)))
           | Some pat \<Rightarrow>
               (case rx pat of
                  None \<Rightarrow> Inl MongoError
                | Some h \<Rightarrow> Inr (mongo_sort srt (filter (satisfies (Some h) f) (docs w)))))"

definition get_products ::
  "(jsstring \<Rightarrow> (jsstring \<Rightarrow> bool) option) \<Rightarrow> query \<Rightarrow> world \<Rightarrow> body response" where
  "get_products rx q w =
     (case Product_find rx (build_filter q) (build_sort q) w of
        Inr products \<Rightarrow> respond 200 (Products products)
      | Inl _ \<Rightarrow> respond 500 (Error ''Failed to fetch products''))"

subsection \<open>GET /api/products/:id\<close>

definition get_product :: "idparam \<Rightarrow> world \<Rightarrow> body response" where
  "get_product ip w =
     (case Product_findById ip w of
        Inl _ \<Rightarrow> respond 500 (Error ''Failed to fetch product'')
      | Inr None \<Rightarrow> respond 404 (Error ''Product not found'')
      | Inr (Some p) \<Rightarrow> respond 200 (Product p))"

subsection \<open>POST /api/products and POST /api/products/base64\<close>

definition all_present :: "create_body \<Rightarrow> bool" where
  "all_present b \<longleftrightarrow>
     \<not> (\<not> truthy (b_name b) \<or> \<not> truthy (b_price b) \<or> \<not> truthy (b_seller b)
        \<or> \<not> truthy (b_whatsapp b) \<or> \<not> truthy (b_condition b) \<or> \<not> truthy (b_description b))"

text \<open>
  The object literal \<^verbatim>\<open>productData\<close>: \<^verbatim>\<open>trim\<close> throws a TypeError on a value
  that is not a string, \<^verbatim>\<open>parseInt\<close> on a value that has no string conversion;
  either ends the evaluation.
\<close>

definition build_productData :: "create_body \<Rightarrow> jsstring \<Rightarrow> jsstring \<Rightarrow> exn + product_data" where
  "build_productData b url public_id =
     (case (js_trim (b_name b), js_parseInt (b_price b), js_trim (b_seller b),
            js_trim (b_whatsapp b), js_trim (b_description b)) of
        (Inr n, Inr pr, Inr s, Inr wa, Inr d) \<Rightarrow>
          Inr \<lparr>d_name = n, d_price = pr, d_seller = s,
                d_whatsapp = wa, d_condition = b_condition b, d_description = d,
                d_imagePath = url, d_imagePublicId = public_id\<rparr>
      | _ \<Rightarrow> Inl TypeError)"

text \<open>
  The \<^verbatim>\<open>catch\<close> block of the multipart handler: the uploaded image is destroyed
  (the call is not awaited, so its failure changes nothing in the response).
\<close>

definition cleanup_upload :: "file_info option \<Rightarrow> world \<Rightarrow> world" where
  "cleanup_upload f w =
     (case f of
        None \<Rightarrow> w
      | Some fi \<Rightarrow> if filename fi \<noteq> [] then snd (cloudinary_destroy (filename fi) w) else w)"

text \<open>
  The middleware \<^verbatim>\<open>upload.single('image')\<close> runs before the handler: it sends
  the \<^verbatim>\<open>image\<close> part, if there is one, to the image host and sets
  \<^verbatim>\<open>req.file\<close>.  When the upload fails the handler is not run.
\<close>

definition upload_single :: "env \<Rightarrow> mp_request \<Rightarrow> world \<Rightarrow> (exn + file_info option) \<times> world" where
  "upload_single e req w =
     (if \<not> mp_image req then (Inr None, w)
      else case cloudinary_upload e w of
             (Inl x, w1) \<Rightarrow> (Inl x, w1)
           | (Inr uploaded, w1) \<Rightarrow> (Inr (Some \<lparr>path = fst uploaded, filename = snd uploaded\<rparr>), w1))"

text \<open>The handler proper: \<open>b\<close> is \<^verbatim>\<open>req.body\<close> and \<open>f\<close> is \<^verbatim>\<open>req.file\<close>.\<close>

definition post_products_handler ::
  "env \<Rightarrow> create_body \<Rightarrow> file_info option \<Rightarrow> world \<Rightarrow> body response \<times> world" where
  "post_products_handler e b f w =
     (if \<not> all_present b then
        (respond 400 (Error ''All fields are required''), w)
      else if f = None then
        (respond 400 (Error ''Product image is required''), w)
      else
        (case regex_test (b_whatsapp b) of
           Inl x \<Rightarrow> (respond 500 (Error ''Failed to save product''), cleanup_upload f w)
         | Inr False \<Rightarrow> (respond 400 (Error ''Invalid WhatsApp number format''), w)
         | Inr True \<Rightarrow>
             (case build_productData b (path (the f)) (filename (the f)) of
                Inl x \<Rightarrow> (respond 500 (Error ''Failed to save product''), cleanup_upload f w)
              | Inr d \<Rightarrow>
                  (case Product_save e d w of
                     (Inr p, w1) \<Rightarrow> (respond 201 (Product p), w1)
                   | (Inl x, w1) \<Rightarrow>
                       (respond 500 (Error ''Failed to save product''), cleanup_upload f w1)))))"

text \<open>
  The route: the middleware, then the handler; an error of the middleware goes to
  the error-handling middleware of the application.
\<close>

definition post_products :: "env \<Rightarrow> mp_request \<Rightarrow> world \<Rightarrow> body response \<times> world" where
  "post_products e req w =
     (case upload_single e req w of
        (Inl x, w1) \<Rightarrow> (respond 500 (Error ''Internal server error''), w1)
      | (Inr f, w1) \<Rightarrow> post_products_handler e (mp_body req) f w1)"

definition post_products_base64 :: "env \<Rightarrow> b64_request \<Rightarrow> world \<Rightarrow> body response \<times> world" where
  "post_products_base64 e req w =
     (if \<not> all_present (b64_body req) \<or> \<not> truthy (imageBase64 req) then
        (respond 400 (Error ''All fields including image are required''), w)
      else
        (case regex_test (b_whatsapp (b64_body req)) of
           Inl x \<Rightarrow> (respond 500 (Error ''Failed to save product''), w)
         | Inr False \<Rightarrow> (respond 400 (Error ''Invalid WhatsApp number format''), w)
         | Inr True \<Rightarrow>
             (case cloudinary_upload e w of
                (Inl x, w1) \<Rightarrow> (respond 500 (Error ''Failed to save product''), w1)
              | (Inr uploadResult, w1) \<Rightarrow>
                  (case build_productData (b64_body req) (fst uploadResult) (snd uploadResult) of
                     Inl x \<Rightarrow> (respond 500 (Error ''Failed to save product''), w1)
                   | Inr d \<Rightarrow>
                       (case Product_save e d w1 of
                          (Inr p, w2) \<Rightarrow> (respond 201 (Product p), w2)
                        | (Inl x, w2) \<Rightarrow> (respond 500 (Error ''Failed to save product''), w2))))))"

subsection \<open>PUT /api/products/:id\<close>

text \<open>
  \<^verbatim>\<open>Product.findByIdAndUpdate(id, req.body, {new: true, runValidators: true})\<close>:
  the body is cast, the validators of the fields it sets are run, and the fields
  it sets replace those of the document; the updated document is returned, or
  null when no document has the id.  The database refuses an update that would
  change \<^verbatim>\<open>_id\<close>.

  What Mongoose and the database make of the operator clauses is taken as given:
  \<open>clauses_cast sv cs\<close> tells whether Mongoose accepts the clauses \<open>cs\<close> (they
  cast and pass the validators it runs on them), and \<open>clauses_effect sv cs p\<close> is
  the document that the database makes of the document \<open>p\<close> with them, or \<open>None\<close>
  when it refuses them.  \<open>regex sv\<close> is its regular-expression engine.
\<close>

record services =
  regex :: "jsstring \<Rightarrow> (jsstring \<Rightarrow> bool) option"
  clauses_cast :: "clause list \<Rightarrow> bool"
  clauses_effect :: "clause list \<Rightarrow> product \<Rightarrow> product option"

fun is_invalid :: "'a upd \<Rightarrow> bool" where
  "is_invalid Invalid \<longleftrightarrow> True"
| "is_invalid _ \<longleftrightarrow> False"

fun upd_ok :: "('a \<Rightarrow> bool) \<Rightarrow> 'a upd \<Rightarrow> bool" where
  "upd_ok P (Set v) \<longleftrightarrow> P v"
| "upd_ok P _ \<longleftrightarrow> True"

fun upd_apply :: "'a upd \<Rightarrow> 'a \<Rightarrow> 'a" where
  "upd_apply (Set v) old = v"
| "upd_apply _ old = old"

definition casts :: "update_body \<Rightarrow> bool" where
  "casts u \<longleftrightarrow>
     \<not> (is_invalid (u_id u) \<or> is_invalid (u_name u) \<or> is_invalid (u_price u)
        \<or> is_invalid (u_seller u) \<or> is_invalid (u_whatsapp u) \<or> is_invalid (u_condition u)
        \<or> is_invalid (u_description u) \<or> is_invalid (u_imagePath u)
        \<or> is_invalid (u_imagePublicId u) \<or> is_invalid (u_dateAdded u)
        \<or> is_invalid (u_isActive u))"

definition update_validators :: "update_body \<Rightarrow> bool" where
  "update_validators u \<longleftrightarrow>
     upd_ok (\<lambda>v. trim v \<noteq> []) (u_name u) \<and> upd_ok (\<lambda>n. Finite 1 \<le> n) (u_price u)
     \<and> upd_ok (\<lambda>v. trim v \<noteq> []) (u_seller u) \<and> upd_ok whatsapp_test (u_whatsapp u)
     \<and> upd_ok (\<lambda>v. v \<in> set conditions) (u_condition u)
     \<and> upd_ok (\<lambda>v. trim v \<noteq> []) (u_description u) \<and> upd_ok (\<lambda>v. v \<noteq> []) (u_imagePath u)"

definition apply_update :: "update_body \<Rightarrow> product \<Rightarrow> product" where
  "apply_update u p =
     p\<lparr>name := upd_apply (map_upd trim (u_name u)) (name p),
       price := upd_apply (u_price u) (price p),
       seller := upd_apply (map_upd trim (u_seller u)) (seller p),
       whatsapp := upd_apply (u_whatsapp u) (whatsapp p),
       condition := upd_apply (u_condition u) (condition p),
       description := upd_apply (map_upd trim (u_description u)) (description p),
       imagePath := upd_apply (u_imagePath u) (imagePath p),
       imagePublicId := upd_apply (map_upd Some (u_imagePublicId u)) (imagePublicId p),
       dateAdded := upd_apply (u_dateAdded u) (dateAdded p),
       isActive := upd_apply (u_isActive u) (isActive p)\<rparr>"

text \<open>The document after the update, or \<open>None\<close> when the database refuses it.\<close>

definition updated :: "services \<Rightarrow> update_body \<Rightarrow> product \<Rightarrow> product option" where
  "updated sv u p =
     (if upd_apply (u_id u) (pid p) \<noteq> pid p then None
      else if u_clauses u = [] then Some (apply_update u p)
      else clauses_effect sv (u_clauses u) (apply_update u p))"

fun update_first :: "oid \<Rightarrow> product \<Rightarrow> product list \<Rightarrow> product list" where
  "update_first i p' [] = []"
| "update_first i p' (p # ps) = (if pid p = i then p' # ps else p # update_first i p' ps)"

definition Product_findByIdAndUpdate ::
  "services \<Rightarrow> idparam \<Rightarrow> update_body \<Rightarrow> world \<Rightarrow> (exn + product option) \<times> world" where
  "Product_findByIdAndUpdate sv ip u w =
     (let w1 = w\<lparr>db_writes := Suc (db_writes w)\<rparr> in
      case ip of
        Uncastable \<Rightarrow> (Inl CastError, w1)
      | ObjectId i \<Rightarrow>
          if \<not> casts u \<or> (u_clauses u \<noteq> [] \<and> \<not> clauses_cast sv (u_clauses u)) then
            (Inl CastError, w1)
          else if \<not> update_validators u then (Inl ValidationError, w1)
          else if \<not> db_up w then (Inl MongoError, w1)
          else
            (case find (\<lambda>p. pid p = i) (docs w) of
               None \<Rightarrow> (Inr None, w1)
             | Some p \<Rightarrow>
                 (case updated sv u p of
                    None \<Rightarrow> (Inl MongoError, w1)
                  | Some p' \<Rightarrow> (Inr (Some p'), w1\<lparr>docs := update_first i p' (docs w)\<rparr>))))"

definition put_product ::
  "services \<Rightarrow> idparam \<Rightarrow> update_body \<Rightarrow> world \<Rightarrow> body response \<times> world" where
  "put_product sv ip u w =
     (case Product_findByIdAndUpdate sv ip u w of
        (Inl x, w1) \<Rightarrow> (respond 500 (Error ''Failed to update product''), w1)
      | (Inr None, w1) \<Rightarrow> (respond 404 (Error ''Product not found''), w1)
      | (Inr (Some p), w1) \<Rightarrow> (respond 200 (Product p), w1))"

subsection \<open>DELETE /api/products/:id\<close>

definition destroy_image :: "product \<Rightarrow> world \<Rightarrow> (exn + unit) \<times> world" where
  "destroy_image p w =
     (case imagePublicId p of
        None \<Rightarrow> (Inr (), w)
      | Some k \<Rightarrow> if k \<noteq> [] then cloudinary_destroy k w else (Inr (), w))"

definition delete_product :: "idparam \<Rightarrow> world \<Rightarrow> body response \<times> world" where
  "delete_product ip w =
     (case Product_findById ip w of
        Inl x \<Rightarrow> (respond 500 (Error ''Failed to delete product''), w)
      | Inr None \<Rightarrow> (respond 404 (Error ''Product not found''), w)
      | Inr (Some p) \<Rightarrow>
          (case destroy_image p w of
             (Inl x, w1) \<Rightarrow> (respond 500 (Error ''Failed to delete product''), w1)
           | (Inr u, w1) \<Rightarrow>
               (case Product_findByIdAndDelete ip w1 of
                  (Inl x, w2) \<Rightarrow> (respond 500 (Error ''Failed to delete product''), w2)
                | (Inr u, w2) \<Rightarrow> (respond 200 (Message ''Product deleted successfully''), w2))))"

subsection \<open>GET /api/health and GET /api/stats\<close>

definition get_health :: "env \<Rightarrow> world \<Rightarrow> body response" where
  "get_health e w =
     respond 200 (Health ''OK'' (now e) (if db_up w then ''Connected'' else ''Disconnected''))"

text \<open>
  The three model calls build a query object each; a query runs when it is awaited.
  \<^verbatim>\<open>await\<close> of a value that is no query is that value.  The property
  \<^verbatim>\<open>length\<close> exists on arrays; a query object and a number have none, so
  reading it gives \<^verbatim>\<open>undefined\<close>; reading it on \<^verbatim>\<open>undefined\<close> throws.
\<close>

text \<open>The average of \<^verbatim>\<open>$avg\<close>; its rounding to a double is not modelled.\<close>

definition average :: "jsint list \<Rightarrow> jsres" where
  "average ns =
     (if PosInfinity \<in> set ns \<and> NegInfinity \<in> set ns then NotANumber
      else if PosInfinity \<in> set ns then Infinite True
      else if NegInfinity \<in> set ns then Infinite False
      else Number (of_int (sum_list (map (\<lambda>n. case n of Finite k \<Rightarrow> k | _ \<Rightarrow> 0) ns))
                   / of_nat (length ns)))"

definition exec_query :: "mquery \<Rightarrow> world \<Rightarrow> exn + jsres" where
  "exec_query q w =
     (if \<not> db_up w then Inl MongoError
      else case q of
        CountActive \<Rightarrow> Inr (Number (of_nat (length (filter isActive (docs w)))))
      | DistinctSeller \<Rightarrow> Inr (Strings (remdups (map seller (docs w))))
      | AvgActivePrice \<Rightarrow>
          Inr (Groups (if filter isActive (docs w) = [] then []
                       else [average (map price (filter isActive (docs w)))])))"

fun js_await :: "jsres \<Rightarrow> world \<Rightarrow> exn + jsres" where
  "js_await (Pending q) w = exec_query q w"
| "js_await v w = Inr v"

fun js_length :: "jsres \<Rightarrow> exn + jsres" where
  "js_length (Strings xs) = Inr (Number (of_nat (length xs)))"
| "js_length (Groups xs) = Inr (Number (of_nat (length xs)))"
| "js_length Undefined = Inl TypeError"
| "js_length v = Inr Undefined"

text \<open>\<^verbatim>\<open>avgPrice[0]?.avgPrice || 0\<close>: zero and NaN are falsy.\<close>

fun first_avg_or_0 :: "jsres \<Rightarrow> jsres" where
  "first_avg_or_0 (Groups (a # as)) = (if a = Number 0 \<or> a = NotANumber then Number 0 else a)"
| "first_avg_or_0 v = Number 0"

definition get_stats :: "world \<Rightarrow> body response" where
  "get_stats w =
     (case js_await (Pending CountActive) w of
        Inl x \<Rightarrow> respond 500 (Error ''Failed to fetch stats'')
      | Inr totalProducts \<Rightarrow>
          (case js_length (Pending DistinctSeller) of
             Inl x \<Rightarrow> respond 500 (Error ''Failed to fetch stats'')
           | Inr len \<Rightarrow>
               (case js_await len w of
                  Inl x \<Rightarrow> respond 500 (Error ''Failed to fetch stats'')
                | Inr totalSellers \<Rightarrow>
                    (case js_await (Pending AvgActivePrice) w of
                       Inl x \<Rightarrow> respond 500 (Error ''Failed to fetch stats'')
                     | Inr avgPrice \<Rightarrow>
                         respond 200 (Stats totalProducts totalSellers (first_avg_or_0 avgPrice))))))"

subsection \<open>The server as a whole\<close>

datatype request =
    GetProducts query
  | GetProduct idparam
  | PostProducts env mp_request
  | PostProductsBase64 env b64_request
  | PutProduct idparam update_body
  | DeleteProduct idparam
  | GetHealth env
  | GetStats

fun handle :: "services \<Rightarrow> request \<Rightarrow> world \<Rightarrow> body response \<times> world" where
  "handle sv (GetProducts q) w = (get_products (regex sv) q w, w)"
| "handle sv (GetProduct ip) w = (get_product ip w, w)"
| "handle sv (PostProducts e req) w = post_products e req w"
| "handle sv (PostProductsBase64 e req) w = post_products_base64 e req w"
| "handle sv (PutProduct ip u) w = put_product sv ip u w"
| "handle sv (DeleteProduct ip) w = delete_product ip w"
| "handle sv (GetHealth e) w = (get_health e w, w)"
| "handle sv GetStats w = (get_stats w, w)"

text \<open>Requests served one after the other.\<close>

fun serve :: "services \<Rightarrow> request list \<Rightarrow> world \<Rightarrow> world" where
  "serve sv [] w = w"
| "serve sv (r # rs) w = serve sv rs (snd (handle sv r w))"

section \<open>The file-backed implementation (sever.js)\<close>

subsection \<open>Listings and the remote repository\<close>

text \<open>
  A listing as it is in \<^verbatim>\<open>products.json\<close> and in a response, that is, as JSON.
  The price is the result of \<^verbatim>\<open>parseInt\<close>, and NaN and the infinities are
  written as null (\<open>None\<close>); \<^verbatim>\<open>condition\<close> and \<^verbatim>\<open>imageUrl\<close> are stored as
  they came.  Numbers are the doubles that \<^verbatim>\<open>JSON.parse\<close> reads.
\<close>

record fproduct =
  fid :: int
  fname :: jsstring
  fprice :: "int option"
  fseller :: jsstring
  fwhatsapp :: jsstring
  fcondition :: jsval
  fdescription :: jsstring
  fimagePath :: jsval
  fdateAdded :: nat

text \<open>
  The version token of a file is the hash of its content; the hash is taken to be
  free of collisions, so the token is the content under a constructor.
\<close>

datatype sha = BlobSha "fproduct list"

text \<open>
  The remote repository: whether the API answers requests made with the configured
  token, the content of \<^verbatim>\<open>products.json\<close> if the file exists (always an array of
  listings), and the number of PUT requests received.
\<close>

record github =
  api_ok :: bool
  products_json :: "fproduct list option"
  puts :: nat

text \<open>\<^verbatim>\<open>githubRequest(endpoint)\<close>: throws on every response that is not ok.\<close>

definition github_get :: "github \<Rightarrow> exn + fproduct list \<times> sha" where
  "github_get g =
     (if \<not> api_ok g then Inl GitHubError
      else case products_json g of
             None \<Rightarrow> Inl GitHubError
           | Some ps \<Rightarrow> Inr (ps, BlobSha ps))"

text \<open>
  \<^verbatim>\<open>githubRequest(endpoint, {method: 'PUT', ...})\<close>: the repository creates the
  file when it does not exist and no token is sent, replaces it when the token sent
  is that of the current content, and rejects the request otherwise.
\<close>

definition github_put :: "fproduct list \<Rightarrow> sha option \<Rightarrow> github \<Rightarrow> (exn + unit) \<times> github" where
  "github_put content token g =
     (let g1 = g\<lparr>puts := Suc (puts g)\<rparr> in
      if \<not> api_ok g then (Inl GitHubError, g1)
      else if token = map_option BlobSha (products_json g) then
        (Inr (), g1\<lparr>products_json := Some content\<rparr>)
      else (Inl GitHubError, g1))"

text \<open>
  The JSON bodies of this implementation: \<^verbatim>\<open>{success: false, message}\<close> (the
  \<^verbatim>\<open>error\<close> text that a 500 adds is left out),
  \<^verbatim>\<open>{success: true, products, source}\<close>,
  \<^verbatim>\<open>{success: true, message, product}\<close> and
  \<^verbatim>\<open>{success: true, message, deletedProduct}\<close>.
\<close>

datatype fbody =
    Failure string
  | Listing "fproduct list" string
  | Added string fproduct
  | Deleted string fproduct

subsection \<open>GET /api/products\<close>

definition demoProducts :: "nat \<Rightarrow> fproduct list" where
  "demoProducts t =
     [\<lparr>fid = 1, fname = str ''Gaming Laptop RTX 3060'', fprice = Some 85000,
       fseller = str ''Alex Kumar'', fwhatsapp = str ''919876543210'',
       fcondition = JStr (str ''Like New''),
       fdescription = str ''High-performance gaming laptop with RTX 3060 graphics card, perfect for gaming and development work.'',
       fimagePath = JStr (str ''https://images.unsplash.com/photo-1593642632823-8f785ba67e45?w=500&h=300&fit=crop''),
       fdateAdded = t\<rparr>,
      \<lparr>fid = 2, fname = str ''Study Table with Storage'', fprice = Some 4500,
       fseller = str ''Priya Singh'', fwhatsapp = str ''919876543211'',
       fcondition = JStr (str ''Good''),
       fdescription = str ''Wooden study desk with multiple drawers, perfect for dorm rooms and study spaces.'',
       fimagePath = JStr (str ''https://images.unsplash.com/photo-1586023492125-27b2c045efd7?w=500&h=300&fit=crop''),
       fdateAdded = t\<rparr>,
      \<lparr>fid = 3, fname = str ''Mountain Bike Trek'', fprice = Some 25000,
       fseller = str ''Rahul Sharma'', fwhatsapp = str ''919876543212'',
       fcondition = JStr (str ''Excellent''),
       fdescription = str ''Trek mountain bike in excellent condition, perfect for campus rides and weekend adventures.'',
       fimagePath = JStr (str ''https://images.unsplash.com/photo-1544191696-15693072ce6b?w=500&h=300&fit=crop''),
       fdateAdded = t\<rparr>]"

definition get_products_file :: "nat \<Rightarrow> github \<Rightarrow> fbody response" where
  "get_products_file t g =
     (case github_get g of
        Inr file \<Rightarrow> respond 200 (Listing (fst file) ''github'')
      | Inl x \<Rightarrow> respond 200 (Listing (demoProducts t) ''demo''))"

subsection \<open>POST /api/products and DELETE /api/products/:id\<close>

text \<open>
  A mutating handler runs in two steps, separated by the \<^verbatim>\<open>await\<close> of its GET
  request: up to the answer of the GET it either responds, or it has the new content
  of the file and the token to send; then it sends the PUT and responds.
\<close>

record pending_write =
  content :: "fproduct list"
  token :: "sha option"
  on_success :: "fbody response"
  on_failure :: "fbody response"

datatype started = Responded "fbody response" | Writing pending_write

definition finish :: "pending_write \<Rightarrow> github \<Rightarrow> fbody response \<times> github" where
  "finish pw g =
     (case github_put (content pw) (token pw) g of
        (Inl x, g1) \<Rightarrow> (on_failure pw, g1)
      | (Inr u, g1) \<Rightarrow> (on_success pw, g1))"

definition carry_out :: "started \<Rightarrow> github \<Rightarrow> fbody response \<times> github" where
  "carry_out st g = (case st of Responded r \<Rightarrow> (r, g) | Writing pw \<Rightarrow> finish pw g)"

record file_request =
  fr_body :: create_body
  imageUrl :: jsval

fun json_number :: "jsint option \<Rightarrow> int option" where
  "json_number (Some (Finite n)) = Some n"
| "json_number x = None"

definition build_newProduct :: "env \<Rightarrow> file_request \<Rightarrow> exn + fproduct" where
  "build_newProduct e req =
     (let b = fr_body req in
      case (js_trim (b_name b), js_parseInt (b_price b), js_trim (b_seller b),
            js_trim (b_whatsapp b), js_trim (b_description b)) of
        (Inr n, Inr pr, Inr s, Inr wa, Inr d) \<Rightarrow>
          Inr \<lparr>fid = int (now e), fname = n, fprice = json_number pr,
                fseller = s, fwhatsapp = wa, fcondition = b_condition b, fdescription = d,
                fimagePath = imageUrl req, fdateAdded = now e\<rparr>
      | _ \<Rightarrow> Inl TypeError)"

definition post_products_file_start :: "env \<Rightarrow> file_request \<Rightarrow> github \<Rightarrow> started" where
  "post_products_file_start e req g =
     (if \<not> all_present (fr_body req) \<or> \<not> truthy (imageUrl req) then
        Responded (respond 400 (Failure ''All fields are required''))
      else
        (case regex_test (b_whatsapp (fr_body req)) of
           Inl x \<Rightarrow> Responded (respond 500 (Failure ''Failed to add product''))
         | Inr False \<Rightarrow>
             Responded (respond 400 (Failure ''WhatsApp number should start with 91 followed by 10 digits''))
         | Inr True \<Rightarrow>
             (let file = (case github_get g of Inr f \<Rightarrow> (fst f, Some (snd f)) | Inl x \<Rightarrow> ([], None));
                  currentProducts = fst file;
                  sha = snd file
              in case build_newProduct e req of
                   Inl x \<Rightarrow> Responded (respond 500 (Failure ''Failed to add product''))
                 | Inr newProduct \<Rightarrow>
                     Writing \<lparr>content = newProduct # currentProducts, token = sha,
                              on_success = respond 200 (Added ''Product added successfully'' newProduct),
                              on_failure = respond 500 (Failure ''Failed to add product'')\<rparr>)))"

definition post_products_file :: "env \<Rightarrow> file_request \<Rightarrow> github \<Rightarrow> fbody response \<times> github" where
  "post_products_file e req g = carry_out (post_products_file_start e req g) g"

text \<open>\<^verbatim>\<open>Array.prototype.findIndex\<close>; \<open>None\<close> is \<open>-1\<close>.\<close>

fun findIndex :: "('a \<Rightarrow> bool) \<Rightarrow> 'a list \<Rightarrow> nat option" where
  "findIndex P [] = None"
| "findIndex P (x # xs) = (if P x then Some 0 else map_option Suc (findIndex P xs))"

text \<open>\<^verbatim>\<open>xs.splice(i, 1)\<close>: the array without its element at \<open>i\<close>.\<close>

definition splice1 :: "nat \<Rightarrow> 'a list \<Rightarrow> 'a list" where
  "splice1 i xs = take i xs @ drop (Suc i) xs"

definition delete_product_file_start :: "jsstring \<Rightarrow> github \<Rightarrow> started" where
  "delete_product_file_start id_param g =
     (let productId = parseInt id_param in
      case github_get g of
        Inl x \<Rightarrow> Responded (respond 500 (Failure ''Failed to delete product''))
      | Inr file \<Rightarrow>
          (let currentProducts = fst file in
           case findIndex (\<lambda>p. Some (Finite (fid p)) = productId) currentProducts of
             None \<Rightarrow> Responded (respond 404 (Failure ''Product not found''))
           | Some productIndex \<Rightarrow>
               Writing \<lparr>content = splice1 productIndex currentProducts, token = Some (snd file),
                        on_success = respond 200 (Deleted ''Product deleted successfully''
                                                    (currentProducts ! productIndex)),
                        on_failure = respond 500 (Failure ''Failed to delete product'')\<rparr>))"

definition delete_product_file :: "jsstring \<Rightarrow> github \<Rightarrow> fbody response \<times> github" where
  "delete_product_file id_param g = carry_out (delete_product_file_start id_param g) g"

section \<open>The minimal implementation (second server.js of sever.js)\<close>

text \<open>
  Its schema has no validator and every field is optional.  The handlers have no
  \<^verbatim>\<open>try\<close>: when \<^verbatim>\<open>save\<close> rejects, no response is sent (\<open>None\<close>).
\<close>

record mini_product =
  m_id :: oid
  m_name :: "jsstring option"
  m_price :: "int option"
  m_seller :: "jsstring option"
  m_whatsapp :: "jsstring option"
  m_condition :: "jsstring option"
  m_description :: "jsstring option"
  m_imagePath :: "jsstring option"
  m_dateAdded :: nat

record mini_body =
  mb_name :: "jsstring upd"
  mb_price :: "int upd"
  mb_seller :: "jsstring upd"
  mb_whatsapp :: "jsstring upd"
  mb_condition :: "jsstring upd"
  mb_description :: "jsstring upd"
  mb_imagePath :: "jsstring upd"
  mb_dateAdded :: "nat upd"

record mini_world =
  m_db_up :: bool
  m_docs :: "mini_product list"

fun upd_option :: "'a upd \<Rightarrow> 'a option" where
  "upd_option (Set v) = Some v"
| "upd_option _ = None"

definition mini_casts :: "mini_body \<Rightarrow> bool" where
  "mini_casts b \<longleftrightarrow>
     \<not> (is_invalid (mb_name b) \<or> is_invalid (mb_price b) \<or> is_invalid (mb_seller b)
        \<or> is_invalid (mb_whatsapp b) \<or> is_invalid (mb_condition b)
        \<or> is_invalid (mb_description b) \<or> is_invalid (mb_imagePath b)
        \<or> is_invalid (mb_dateAdded b))"

definition mini_new_Product :: "env \<Rightarrow> mini_body \<Rightarrow> mini_product" where
  "mini_new_Product e b =
     \<lparr>m_id = new_id e, m_name = upd_option (mb_name b), m_price = upd_option (mb_price b),
      m_seller = upd_option (mb_seller b), m_whatsapp = upd_option (mb_whatsapp b),
      m_condition = upd_option (mb_condition b), m_description = upd_option (mb_description b),
      m_imagePath = upd_option (mb_imagePath b),
      m_dateAdded = upd_apply (mb_dateAdded b) (now e)\<rparr>"

definition post_products_minimal ::
  "env \<Rightarrow> mini_body \<Rightarrow> mini_world \<Rightarrow> mini_product response option \<times> mini_world" where
  "post_products_minimal e b w =
     (let product = mini_new_Product e b in
      if \<not> mini_casts b \<or> \<not> m_db_up w \<or> m_id product \<in> set (map m_id (m_docs w)) then (None, w)
      else (Some (respond 200 product), w\<lparr>m_docs := m_docs w @ [product]\<rparr>))"

section \<open>Notions used to state the properties\<close>

text \<open>The listing with a given identifier, as \<^verbatim>\<open>findById\<close> sees it.\<close>

definition lookup :: "oid \<Rightarrow> world \<Rightarrow> product option" where
  "lookup i w = find (\<lambda>p. pid p = i) (docs w)"

text \<open>
  A PUT names \<^verbatim>\<open>dateAdded\<close> when its body has the field, or has an operator
  clause on the path \<^verbatim>\<open>dateAdded\<close> (or a path under it), or a \<^verbatim>\<open>$rename\<close>
  clause with that target (a target that is no string counts as one).
\<close>

fun is_set :: "'a upd \<Rightarrow> bool" where
  "is_set (Set v) \<longleftrightarrow> True"
| "is_set _ \<longleftrightarrow> False"

definition under_dateAdded :: "jsstring \<Rightarrow> bool" where
  "under_dateAdded p \<longleftrightarrow> p = str ''dateAdded'' \<or> take 10 p = str ''dateAdded.''"

fun rename_target :: "jsval \<Rightarrow> bool" where
  "rename_target (JStr t) \<longleftrightarrow> under_dateAdded t"
| "rename_target v \<longleftrightarrow> True"

fun clause_names_dateAdded :: "clause \<Rightarrow> bool" where
  "clause_names_dateAdded (Clause operator p arg) \<longleftrightarrow>
     under_dateAdded p \<or> (operator = str ''$rename'' \<and> rename_target arg)"

definition names_dateAdded :: "update_body \<Rightarrow> bool" where
  "names_dateAdded u \<longleftrightarrow>
     is_set (u_dateAdded u) \<or> list_ex clause_names_dateAdded (u_clauses u)"

text \<open>
  A request that is a PUT on listing \<open>i\<close> naming \<^verbatim>\<open>dateAdded\<close>, and a request
  that is a DELETE of listing \<open>i\<close>.
\<close>

fun sets_dateAdded :: "oid \<Rightarrow> request \<Rightarrow> bool" where
  "sets_dateAdded i (PutProduct ip u) \<longleftrightarrow> ip = ObjectId i \<and> names_dateAdded u"
| "sets_dateAdded i r \<longleftrightarrow> False"

fun deletes :: "oid \<Rightarrow> request \<Rightarrow> bool" where
  "deletes i (DeleteProduct ip) \<longleftrightarrow> ip = ObjectId i"
| "deletes i r \<longleftrightarrow> False"

text \<open>
  The database changes no \<^verbatim>\<open>_id\<close>, and it changes the fields that the clauses
  of an update name and no other.  Of the second only this is used: clauses that
  do not name \<^verbatim>\<open>dateAdded\<close> leave it as it is.
\<close>

definition confined :: "services \<Rightarrow> bool" where
  "confined sv \<longleftrightarrow>
     (\<forall>cs p p'. clauses_effect sv cs p = Some p' \<longrightarrow>
        pid p' = pid p
        \<and> (\<not> list_ex clause_names_dateAdded cs \<longrightarrow> dateAdded p' = dateAdded p))"

text \<open>
  The listing that an identifier sent to the file-backed delete denotes: the
  handler reads the identifier with \<^verbatim>\<open>parseInt\<close>, so it denotes the listing
  whose id is the number read.
\<close>

definition denotes :: "jsstring \<Rightarrow> fproduct \<Rightarrow> bool" where
  "denotes s p \<longleftrightarrow> parseInt s = Some (Finite (fid p))"

text \<open>The two mutating requests of the file-backed implementation, and their first step.\<close>

datatype mutation = Create env file_request | Delete jsstring

fun start :: "mutation \<Rightarrow> github \<Rightarrow> started" where
  "start (Create e req) g = post_products_file_start e req g"
| "start (Delete s) g = delete_product_file_start s g"

section \<open>Sample requests and stores\<close>

text \<open>
  The listing of the round-trip example (a desk for 2000, seller A) as a request
  to each create handler, the same request with a malformed phone number and with
  a phone number that has no string conversion, two more listings, and small stores
  to run them on.
\<close>

definition desk :: create_body where
  "desk = \<lparr>b_name = JStr (str ''Desk''), b_price = JStr (str ''2000''),
           b_seller = JStr (str ''A''), b_whatsapp = JStr (str ''919999999999''),
           b_condition = JStr (str ''Good''), b_description = JStr (str ''x'')\<rparr>"

definition bad_phone :: create_body where
  "bad_phone = desk\<lparr>b_whatsapp := JStr (str ''1234567890'')\<rparr>"

definition desk_image :: file_info where
  "desk_image = \<lparr>path = str ''https://img.example/desk.jpg'', filename = str ''products/desk''\<rparr>"

definition env0 :: env where
  "env0 = \<lparr>now = 1700000000000, new_id = 7,
           upload_result = Some (str ''https://img.example/desk.jpg'', str ''products/desk'')\<rparr>"

definition world0 :: world where
  "world0 = \<lparr>db_up = True, docs = [], db_writes = 0, cloud_up = True, images = {}\<rparr>"

definition desk_listing :: product where
  "desk_listing =
     \<lparr>pid = 7, name = str ''Desk'', price = Finite 2000, seller = str ''A'',
      whatsapp = str ''919999999999'', condition = str ''Good'', description = str ''x'',
      imagePath = str ''https://img.example/desk.jpg'', imagePublicId = Some (str ''products/desk''),
      dateAdded = 1700000000000, isActive = True\<rparr>"

definition world1 :: world where
  "world1 = world0\<lparr>docs := [desk_listing], db_writes := 1\<rparr>"

text \<open>The image host after the upload of the desk's image.\<close>

definition desk_uploaded :: world where
  "desk_uploaded = world0\<lparr>images := {str ''products/desk''}\<rparr>"

definition no_update :: update_body where
  "no_update = \<lparr>u_id = Absent, u_name = Absent, u_price = Absent, u_seller = Absent,
                u_whatsapp = Absent, u_condition = Absent, u_description = Absent,
                u_imagePath = Absent, u_imagePublicId = Absent, u_dateAdded = Absent,
                u_isActive = Absent, u_clauses = []\<rparr>"

definition no_query :: query where
  "no_query = \<lparr>q_search = None, q_minPrice = None, q_maxPrice = None, q_condition = None,
               q_sort = None\<rparr>"

definition no_regex :: "jsstring \<Rightarrow> (jsstring \<Rightarrow> bool) option" where
  "no_regex pat = None"

definition desk_fproduct :: fproduct where
  "desk_fproduct =
     \<lparr>fid = 1700000000000, fname = str ''Desk'', fprice = Some 2000, fseller = str ''A'',
      fwhatsapp = str ''919999999999'', fcondition = JStr (str ''Good''), fdescription = str ''x'',
      fimagePath = JStr (str ''https://img.example/desk.jpg''), fdateAdded = 1700000000000\<rparr>"

definition no_file :: github where
  "no_file = \<lparr>api_ok = True, products_json = None, puts = 0\<rparr>"

definition one_file :: github where
  "one_file = \<lparr>api_ok = True, products_json = Some [desk_fproduct], puts = 1\<rparr>"

definition mini_desk :: mini_body where
  "mini_desk = \<lparr>mb_name = Set (str ''Desk''), mb_price = Set 2000, mb_seller = Set (str ''A''),
                mb_whatsapp = Set (str ''919999999999''), mb_condition = Set (str ''Good''),
                mb_description = Set (str ''x''), mb_imagePath = Absent, mb_dateAdded = Absent\<rparr>"

definition mini_world0 :: mini_world where
  "mini_world0 = \<lparr>m_db_up = True, m_docs = []\<rparr>"

definition desk_multipart :: mp_request where
  "desk_multipart = \<lparr>mp_body = desk, mp_image = True\<rparr>"

definition bad_multipart :: mp_request where
  "bad_multipart = \<lparr>mp_body = bad_phone, mp_image = True\<rparr>"

definition bad_multipart_no_image :: mp_request where
  "bad_multipart_no_image = \<lparr>mp_body = bad_phone, mp_image = False\<rparr>"

definition desk_base64 :: b64_request where
  "desk_base64 = \<lparr>b64_body = desk, imageBase64 = JStr (str ''data:image/png;base64,AAAA'')\<rparr>"

definition bad_base64 :: b64_request where
  "bad_base64 = \<lparr>b64_body = bad_phone, imageBase64 = JStr (str ''data:image/png;base64,AAAA'')\<rparr>"

definition desk_json :: file_request where
  "desk_json = \<lparr>fr_body = desk, imageUrl = JStr (str ''https://img.example/desk.jpg'')\<rparr>"

definition bad_json :: file_request where
  "bad_json = \<lparr>fr_body = bad_phone, imageUrl = JStr (str ''https://img.example/desk.jpg'')\<rparr>"

definition nameless_multipart :: mp_request where
  "nameless_multipart = \<lparr>mp_body = desk\<lparr>b_name := JUndefined\<rparr>, mp_image = True\<rparr>"

definition lamp_listing :: product where
  "lamp_listing =
     \<lparr>pid = 8, name = str ''Lamp'', price = Finite 500, seller = str ''B'',
      whatsapp = str ''919876543210'', condition = str ''Fair'', description = str ''y'',
      imagePath = str ''https://img.example/lamp.jpg'', imagePublicId = Some (str ''products/lamp''),
      dateAdded = 1700000000001, isActive = True\<rparr>"

definition chair_listing :: product where
  "chair_listing =
     \<lparr>pid = 9, name = str ''Chair'', price = Finite 900, seller = str ''A'',
      whatsapp = str ''919999999999'', condition = str ''Like New'', description = str ''z'',
      imagePath = str ''https://img.example/chair.jpg'', imagePublicId = Some (str ''products/chair''),
      dateAdded = 1700000000002, isActive = True\<rparr>"

definition world3 :: world where
  "world3 = world0\<lparr>docs := [desk_listing, lamp_listing, chair_listing], db_writes := 3\<rparr>"

definition sort_by :: "string \<Rightarrow> query" where
  "sort_by k = no_query\<lparr>q_sort := Some (str k)\<rparr>"

definition env1 :: env where
  "env1 = env0\<lparr>now := 1700000000500, new_id := 8\<rparr>"

definition lamp_json :: file_request where
  "lamp_json =
     \<lparr>fr_body = \<lparr>b_name = JStr (str ''Lamp''), b_price = JStr (str ''500''),
                  b_seller = JStr (str ''B''), b_whatsapp = JStr (str ''919876543210''),
                  b_condition = JStr (str ''Fair''), b_description = JStr (str ''y'')\<rparr>,
      imageUrl = JStr (str ''https://img.example/lamp.jpg'')\<rparr>"

definition lamp_fproduct :: fproduct where
  "lamp_fproduct =
     \<lparr>fid = 1700000000500, fname = str ''Lamp'', fprice = Some 500, fseller = str ''B'',
      fwhatsapp = str ''919876543210'', fcondition = JStr (str ''Fair''), fdescription = str ''y'',
      fimagePath = JStr (str ''https://img.example/lamp.jpg''), fdateAdded = 1700000000500\<rparr>"

definition lamp_write :: pending_write where
  "lamp_write =
     \<lparr>content = [lamp_fproduct, desk_fproduct], token = Some (BlobSha [desk_fproduct]),
      on_success = respond 200 (Added ''Product added successfully'' lamp_fproduct),
      on_failure = respond 500 (Failure ''Failed to add product'')\<rparr>"

definition desk_removal :: pending_write where
  "desk_removal =
     \<lparr>content = [], token = Some (BlobSha [desk_fproduct]),
      on_success = respond 200 (Deleted ''Product deleted successfully'' desk_fproduct),
      on_failure = respond 500 (Failure ''Failed to delete product'')\<rparr>"

definition two_file :: github where
  "two_file = \<lparr>api_ok = True, products_json = Some [lamp_fproduct, desk_fproduct], puts = 2\<rparr>"

text \<open>
  The value of the JSON object \<^verbatim>\<open>{"toString": 1}\<close>: truthy, with no string
  conversion, with no cast to a string.
\<close>

definition unprintable :: jsval where
  "unprintable = JOther True None None"

definition unprintable_json :: file_request where
  "unprintable_json = desk_json\<lparr>fr_body := desk\<lparr>b_whatsapp := unprintable\<rparr>\<rparr>"

text \<open>
  Services that refuse every regular expression, and that know one update
  operator, \<^verbatim>\<open>$inc\<close> of the price by one.
\<close>

fun inc_price :: "clause list \<Rightarrow> product \<Rightarrow> product option" where
  "inc_price [Clause operator p arg] d =
     (if operator = str ''$inc'' \<and> p = str ''price''
      then Some (d\<lparr>price := (case price d of Finite k \<Rightarrow> Finite (k + 1) | v \<Rightarrow> v)\<rparr>)
      else None)"
| "inc_price cs d = None"

definition services0 :: services where
  "services0 = \<lparr>regex = no_regex, clauses_cast = (\<lambda>cs. True), clauses_effect = inc_price\<rparr>"

definition inc_price_body :: update_body where
  "inc_price_body = no_update\<lparr>u_clauses := [Clause (str ''$inc'') (str ''price'') (JStr (str ''1''))]\<rparr>"

text \<open>A file whose listing has the id \<open>2^53\<close>.\<close>

definition big_file :: github where
  "big_file = one_file\<lparr>products_json := Some [desk_fproduct\<lparr>fid := 9007199254740992\<rparr>]\<rparr>"

section \<open>Facts about the built-ins\<close>

lemma match_anchored_all2: "match_anchored as s \<longleftrightarrow> list_all2 atom_ok as s"
  by (induction as s rule: match_anchored.induct) simp_all

lemma whatsapp_test_digits:
  assumes "whatsapp_test s"
  shows "length s = 12 \<and> (\<forall>c \<in> set s. 48 \<le> c \<and> c \<le> 57)"
proof -
  from assms have all2: "list_all2 atom_ok whatsapp_re s"
    by (simp add: whatsapp_test_def match_anchored_all2)
  have atoms: "\<forall>a \<in> set whatsapp_re. \<forall>c. atom_ok a c \<longrightarrow> 48 \<le> c \<and> c \<le> 57"
    by (auto simp: whatsapp_re_def)
  have len: "length s = 12"
    using list_all2_lengthD [OF all2] by (simp add: whatsapp_re_def)
  have "\<forall>c \<in> set s. 48 \<le> c \<and> c \<le> 57"
  proof
    fix c assume "c \<in> set s"
    then obtain i where i: "i < length s" "s ! i = c"
      by (auto simp: in_set_conv_nth)
    with all2 have "atom_ok (whatsapp_re ! i) c"
      by (auto simp: list_all2_conv_all_nth)
    moreover have "whatsapp_re ! i \<in> set whatsapp_re"
      using i list_all2_lengthD [OF all2] by simp
    ultimately show "48 \<le> c \<and> c \<le> 57"
      using atoms by blast
  qed
  with len show ?thesis by simp
qed

lemma digit_not_ws: "48 \<le> c \<Longrightarrow> c \<le> 57 \<Longrightarrow> \<not> is_ws c"
  by (auto simp: is_ws_def)

lemma trim_no_ws:
  assumes "\<forall>c \<in> set s. \<not> is_ws c"
  shows "trim s = s"
proof -
  from assms have "dropWhile is_ws s = s"
    by (cases s) auto
  moreover from assms have "dropWhile is_ws (rev s) = rev s"
    by (cases "rev s") (auto dest: arg_cong [where f = set])
  ultimately show ?thesis
    by (simp add: trim_def)
qed

lemma whatsapp_test_trim: "whatsapp_test s \<Longrightarrow> trim s = s"
  using whatsapp_test_digits [of s] digit_not_ws by (intro trim_no_ws) blast

section \<open>Facts about the database operations\<close>

lemma Product_save_Inr:
  assumes "Product_save e d w = (Inr p, w')"
  shows "new_Product e d = Some p \<and> validate p \<and> db_up w \<and> pid p \<notin> set (map pid (docs w))
         \<and> w' = w\<lparr>db_writes := Suc (db_writes w), docs := docs w @ [p]\<rparr>"
  using assms by (auto simp: Product_save_def Let_def split: option.splits if_splits)

lemma docs_cleanup_upload:
  "docs (cleanup_upload f w) = docs w \<and> db_writes (cleanup_upload f w) = db_writes w"
  by (simp add: cleanup_upload_def cloudinary_destroy_def split: option.splits)

lemma Product_save_docs:
  "Product_save e d w = (r, w1) \<Longrightarrow>
     (\<exists>p. r = Inr p \<and> docs w1 = docs w @ [p]) \<or> ((\<exists>x. r = Inl x) \<and> docs w1 = docs w)"
  by (auto simp: Product_save_def Let_def split: option.splits if_splits)

lemma cloudinary_upload_listings:
  "docs (snd (cloudinary_upload e w)) = docs w
   \<and> db_writes (snd (cloudinary_upload e w)) = db_writes w
   \<and> db_up (snd (cloudinary_upload e w)) = db_up w"
  by (simp add: cloudinary_upload_def split: option.splits)

lemma upload_single_listings:
  "docs (snd (upload_single e req w)) = docs w
   \<and> db_writes (snd (upload_single e req w)) = db_writes w
   \<and> db_up (snd (upload_single e req w)) = db_up w"
  using cloudinary_upload_listings [of e w]
  by (auto simp: upload_single_def split: prod.splits sum.splits)

section \<open>The phone number is checked before any write\<close>

lemma regex_test_mismatch:
  "ToString x = Inr s \<Longrightarrow> \<not> whatsapp_test s \<Longrightarrow> regex_test x = Inr False"
  by (simp add: regex_test_def)

lemma regex_test_True:
  "regex_test x = Inr True \<longleftrightarrow> (\<exists>s. ToString x = Inr s \<and> whatsapp_test s)"
  by (auto simp: regex_test_def split: sum.splits)

lemma handler_400:
  assumes "regex_test (b_whatsapp b) = Inr False"
  shows "status (fst (post_products_handler e b f w)) = 400"
  using assms by (simp add: post_products_handler_def respond_def)

lemma handler_no_write:
  assumes "regex_test (b_whatsapp b) \<noteq> Inr True"
  shows "docs (snd (post_products_handler e b f w)) = docs w
         \<and> db_writes (snd (post_products_handler e b f w)) = db_writes w"
  using assms
  by (auto simp: post_products_handler_def docs_cleanup_upload split: sum.splits bool.splits)

lemma post_products_400:
  assumes "regex_test (b_whatsapp (mp_body req)) = Inr False"
    and "\<not> isl (fst (upload_single e req w))"
  shows "status (fst (post_products e req w)) = 400"
  using assms handler_400 [of "mp_body req" e]
  by (auto simp: post_products_def split: prod.splits sum.splits)

lemma post_products_no_write:
  assumes "regex_test (b_whatsapp (mp_body req)) \<noteq> Inr True"
  shows "docs (snd (post_products e req w)) = docs w
         \<and> db_writes (snd (post_products e req w)) = db_writes w"
proof (cases "upload_single e req w")
  case (Pair r w1)
  then have w1: "docs w1 = docs w" "db_writes w1 = db_writes w"
    using upload_single_listings [of e req w] by simp_all
  show ?thesis
  proof (cases r)
    case (Inl x)
    with Pair w1 show ?thesis
      by (simp add: post_products_def)
  next
    case (Inr f)
    with Pair w1 show ?thesis
      using handler_no_write [OF assms, of e f w1] by (simp add: post_products_def)
  qed
qed

lemma post_products_base64_400:
  assumes "regex_test (b_whatsapp (b64_body req)) = Inr False"
  shows "status (fst (post_products_base64 e req w)) = 400"
  using assms by (simp add: post_products_base64_def respond_def)

lemma post_products_base64_no_write:
  assumes "regex_test (b_whatsapp (b64_body req)) \<noteq> Inr True"
  shows "snd (post_products_base64 e req w) = w"
  using assms by (auto simp: post_products_base64_def split: sum.splits bool.splits)

lemma post_products_file_400:
  assumes "regex_test (b_whatsapp (fr_body req)) = Inr False"
  shows "status (fst (post_products_file e req g)) = 400"
  using assms
  by (simp add: post_products_file_def post_products_file_start_def carry_out_def respond_def)

lemma post_products_file_no_write:
  assumes "regex_test (b_whatsapp (fr_body req)) \<noteq> Inr True"
  shows "snd (post_products_file e req g) = g"
  using assms
  by (auto simp: post_products_file_def post_products_file_start_def carry_out_def
      split: sum.splits bool.splits)

lemma handler_201:
  assumes "status (fst (post_products_handler e b f w)) = 201"
  shows "\<exists>d p. Product_save e d w = (Inr p, snd (post_products_handler e b f w))
            \<and> fst (post_products_handler e b f w) = respond 201 (Product p)"
  using assms
  by (auto simp: post_products_handler_def respond_def
      split: if_splits sum.splits prod.splits bool.splits)

lemma post_products_201:
  assumes "status (fst (post_products e req w)) = 201"
  shows "\<exists>d p w1. Product_save e d w1 = (Inr p, snd (post_products e req w))
            \<and> fst (post_products e req w) = respond 201 (Product p)"
proof (cases "upload_single e req w")
  case (Pair r w1)
  show ?thesis
  proof (cases r)
    case (Inl x)
    with Pair assms show ?thesis
      by (simp add: post_products_def respond_def)
  next
    case (Inr f)
    with Pair assms have "status (fst (post_products_handler e (mp_body req) f w1)) = 201"
      by (simp add: post_products_def)
    from handler_201 [OF this] Pair Inr show ?thesis
      by (auto simp: post_products_def)
  qed
qed

lemma post_products_base64_201:
  assumes "status (fst (post_products_base64 e req w)) = 201"
  shows "\<exists>d p w1. Product_save e d w1 = (Inr p, snd (post_products_base64 e req w))
            \<and> fst (post_products_base64 e req w) = respond 201 (Product p)"
  using assms
  by (auto simp: post_products_base64_def respond_def
      split: if_splits sum.splits prod.splits bool.splits)

lemma build_newProduct_whatsapp:
  assumes "build_newProduct e req = Inr p"
  shows "\<exists>wa. b_whatsapp (fr_body req) = JStr wa \<and> fwhatsapp p = trim wa"
proof (cases "b_whatsapp (fr_body req)")
  case (JStr wa)
  with assms show ?thesis
    by (auto simp: build_newProduct_def Let_def split: sum.splits)
qed (use assms in \<open>auto simp: build_newProduct_def Let_def split: sum.splits\<close>)

lemma post_products_file_200:
  assumes "status (fst (post_products_file e req g)) = 200"
  shows "\<exists>p. build_newProduct e req = Inr p
            \<and> regex_test (b_whatsapp (fr_body req)) = Inr True
            \<and> fst (post_products_file e req g) = respond 200 (Added ''Product added successfully'' p)"
  using assms
  by (auto simp: post_products_file_def post_products_file_start_def carry_out_def finish_def
        respond_def Let_def split: if_splits sum.splits prod.splits bool.splits)

text \<open>
  C1, as amended.  In the multipart, the base64 and the file-backed create, a
  request whose \<^verbatim>\<open>whatsapp\<close> field converts to a string that does not match
  \<^verbatim>\<open>^91\d{10}$\<close> is answered with status 400; in the multipart route this
  supposes that the upload of the image, which runs before the handler, has not
  failed.  A request whose \<^verbatim>\<open>whatsapp\<close> field does not pass the test, because its
  string does not match or because its conversion to a string throws, causes no
  write to the listing store and no attempt of one.  When a create succeeds (201 in
  the document-store handlers, 200 in the file-backed one) the listing in the
  response has a \<^verbatim>\<open>whatsapp\<close> that matches the expression.
\<close>

theorem whatsapp_checked_before_write:
  "(ToString (b_whatsapp (mp_body mreq)) = Inr s1 \<and> \<not> whatsapp_test s1
      \<and> \<not> isl (fst (upload_single e mreq w)) \<longrightarrow>
      status (fst (post_products e mreq w)) = 400)
   \<and> (ToString (b_whatsapp (b64_body breq)) = Inr s2 \<and> \<not> whatsapp_test s2 \<longrightarrow>
      status (fst (post_products_base64 e breq w)) = 400)
   \<and> (ToString (b_whatsapp (fr_body freq)) = Inr s3 \<and> \<not> whatsapp_test s3 \<longrightarrow>
      status (fst (post_products_file e freq g)) = 400)
   \<and> (regex_test (b_whatsapp (mp_body mreq)) \<noteq> Inr True \<longrightarrow>
      docs (snd (post_products e mreq w)) = docs w
      \<and> db_writes (snd (post_products e mreq w)) = db_writes w)
   \<and> (regex_test (b_whatsapp (b64_body breq)) \<noteq> Inr True \<longrightarrow>
      snd (post_products_base64 e breq w) = w)
   \<and> (regex_test (b_whatsapp (fr_body freq)) \<noteq> Inr True \<longrightarrow>
      snd (post_products_file e freq g) = g)
   \<and> (status (fst (post_products e mreq w)) = 201 \<longrightarrow>
      (\<exists>p. body (fst (post_products e mreq w)) = Product p \<and> whatsapp_test (whatsapp p)))
   \<and> (status (fst (post_products_base64 e breq w)) = 201 \<longrightarrow>
      (\<exists>p. body (fst (post_products_base64 e breq w)) = Product p \<and> whatsapp_test (whatsapp p)))
   \<and> (status (fst (post_products_file e freq g)) = 200 \<longrightarrow>
      (\<exists>m p. body (fst (post_products_file e freq g)) = Added m p \<and> whatsapp_test (fwhatsapp p)))"
proof -
  have multipart: "\<exists>p. body (fst (post_products e mreq w)) = Product p \<and> whatsapp_test (whatsapp p)"
    if "status (fst (post_products e mreq w)) = 201"
  proof -
    from post_products_201 [OF that] obtain d p w1 where
      "Product_save e d w1 = (Inr p, snd (post_products e mreq w))"
      "fst (post_products e mreq w) = respond 201 (Product p)"
      by blast
    then show ?thesis
      using Product_save_Inr [of e d w1 p] by (auto simp: respond_def validate_def)
  qed
  have base64: "\<exists>p. body (fst (post_products_base64 e breq w)) = Product p \<and> whatsapp_test (whatsapp p)"
    if "status (fst (post_products_base64 e breq w)) = 201"
  proof -
    from post_products_base64_201 [OF that] obtain d p w1 where
      "Product_save e d w1 = (Inr p, snd (post_products_base64 e breq w))"
      "fst (post_products_base64 e breq w) = respond 201 (Product p)"
      by blast
    then show ?thesis
      using Product_save_Inr [of e d w1 p] by (auto simp: respond_def validate_def)
  qed
  have file_backed: "\<exists>m p. body (fst (post_products_file e freq g)) = Added m p \<and> whatsapp_test (fwhatsapp p)"
    if "status (fst (post_products_file e freq g)) = 200"
  proof -
    from post_products_file_200 [OF that] obtain p where p:
      "build_newProduct e freq = Inr p"
      "regex_test (b_whatsapp (fr_body freq)) = Inr True"
      "fst (post_products_file e freq g) = respond 200 (Added ''Product added successfully'' p)"
      by blast
    from build_newProduct_whatsapp [OF p(1)] obtain wa where
      wa: "b_whatsapp (fr_body freq) = JStr wa" "fwhatsapp p = trim wa"
      by blast
    with p(2) have "whatsapp_test wa"
      by (simp add: regex_test_def)
    with wa have "whatsapp_test (fwhatsapp p)"
      by (simp add: whatsapp_test_trim)
    with p(3) show ?thesis
      by (auto simp: respond_def)
  qed
  show ?thesis
    using regex_test_mismatch [of "b_whatsapp (mp_body mreq)" s1]
      regex_test_mismatch [of "b_whatsapp (b64_body breq)" s2]
      regex_test_mismatch [of "b_whatsapp (fr_body freq)" s3]
      post_products_400 [of mreq e w] post_products_no_write [of mreq e w]
      post_products_base64_400 [of breq e w] post_products_base64_no_write [of breq e w]
      post_products_file_400 [of freq e g] post_products_file_no_write [of freq e g]
      multipart base64 file_backed
    by blast
qed

theorem whatsapp_checked_before_write_witness:
  "status (fst (post_products env0 bad_multipart world0)) = 400
   \<and> status (fst (post_products_base64 env0 bad_base64 world0)) = 400
   \<and> status (fst (post_products_file env0 bad_json no_file)) = 400
   \<and> docs (snd (post_products env0 bad_multipart world0)) = docs world0
   \<and> db_writes (snd (post_products env0 bad_multipart world0)) = db_writes world0
   \<and> snd (post_products_base64 env0 bad_base64 world0) = world0
   \<and> snd (post_products_file env0 unprintable_json no_file) = no_file
   \<and> (\<exists>p. body (fst (post_products env0 desk_multipart world0)) = Product p
          \<and> whatsapp_test (whatsapp p))
   \<and> (\<exists>p. body (fst (post_products_base64 env0 desk_base64 world0)) = Product p
          \<and> whatsapp_test (whatsapp p))
   \<and> (\<exists>m p. body (fst (post_products_file env0 desk_json no_file)) = Added m p
          \<and> whatsapp_test (fwhatsapp p))"
proof -
  have bad:
    "ToString (b_whatsapp (mp_body bad_multipart)) = Inr (str ''1234567890'')"
    "ToString (b_whatsapp (b64_body bad_base64)) = Inr (str ''1234567890'')"
    "ToString (b_whatsapp (fr_body bad_json)) = Inr (str ''1234567890'')"
    "\<not> whatsapp_test (str ''1234567890'')"
    "\<not> isl (fst (upload_single env0 bad_multipart world0))"
    by code_simp+
  have untested:
    "regex_test (b_whatsapp (mp_body bad_multipart)) \<noteq> Inr True"
    "regex_test (b_whatsapp (b64_body bad_base64)) \<noteq> Inr True"
    "regex_test (b_whatsapp (fr_body unprintable_json)) \<noteq> Inr True"
    by code_simp+
  have good:
    "status (fst (post_products env0 desk_multipart world0)) = 201"
    "status (fst (post_products_base64 env0 desk_base64 world0)) = 201"
    "status (fst (post_products_file env0 desk_json no_file)) = 200"
    by code_simp+
  note rejected = whatsapp_checked_before_write
    [where mreq = bad_multipart and breq = bad_base64 and freq = bad_json
       and e = env0 and w = world0 and g = no_file
       and ?s1.0 = "str ''1234567890''" and ?s2.0 = "str ''1234567890''"
       and ?s3.0 = "str ''1234567890''"]
  note thrown = whatsapp_checked_before_write
    [where mreq = bad_multipart and breq = bad_base64 and freq = unprintable_json
       and e = env0 and w = world0 and g = no_file]
  note accepted = whatsapp_checked_before_write
    [where mreq = desk_multipart and breq = desk_base64 and freq = desk_json
       and e = env0 and w = world0 and g = no_file]
  from bad rejected have
    "status (fst (post_products env0 bad_multipart world0)) = 400
     \<and> status (fst (post_products_base64 env0 bad_base64 world0)) = 400
     \<and> status (fst (post_products_file env0 bad_json no_file)) = 400"
    by blast
  moreover from untested thrown have
    "docs (snd (post_products env0 bad_multipart world0)) = docs world0
     \<and> db_writes (snd (post_products env0 bad_multipart world0)) = db_writes world0
     \<and> snd (post_products_base64 env0 bad_base64 world0) = world0
     \<and> snd (post_products_file env0 unprintable_json no_file) = no_file"
    by blast
  moreover from good accepted have
    "(\<exists>p. body (fst (post_products env0 desk_multipart world0)) = Product p
          \<and> whatsapp_test (whatsapp p))
     \<and> (\<exists>p. body (fst (post_products_base64 env0 desk_base64 world0)) = Product p
          \<and> whatsapp_test (whatsapp p))
     \<and> (\<exists>m p. body (fst (post_products_file env0 desk_json no_file)) = Added m p
          \<and> whatsapp_test (fwhatsapp p))"
    by blast
  ultimately show ?thesis
    by blast
qed

text \<open>
  C1 as stated fails: a file-backed create whose \<^verbatim>\<open>whatsapp\<close> is the JSON object
  \<^verbatim>\<open>{"toString": 1}\<close> has a field that does not match the expression, since the
  test throws on it, and is answered 500 from the catch block, not 400.  Nothing
  is written.
\<close>

theorem whatsapp_checked_before_write_counterexample:
  "regex_test (b_whatsapp (fr_body unprintable_json)) = Inl TypeError
   \<and> post_products_file env0 unprintable_json no_file
       = (respond 500 (Failure ''Failed to add product''), no_file)
   \<and> status (fst (post_products_file env0 unprintable_json no_file)) \<noteq> 400"
  by code_simp

section \<open>Validation order of the multipart create route\<close>

text \<open>
  C7, as amended.  In the multipart create route the upload of the image runs
  first; the handler then validates in the order: presence of the six text fields,
  then presence of the image, then the format of the phone number.  So a request
  with a missing field gets \<open>All fields are required\<close> whatever else is wrong; a
  request with all fields and no image gets \<open>Product image is required\<close> whatever
  its phone number; only a request with all fields and an image gets
  \<open>Invalid WhatsApp number format\<close> for a phone number that does not match.
  Whenever the answer is 400 no listing has been written and no write of one
  attempted.
\<close>

theorem multipart_validation_order:
  "(upload_single e req w = (Inr f, w1) \<longrightarrow>
      (\<not> all_present (mp_body req) \<longrightarrow>
         post_products e req w = (respond 400 (Error ''All fields are required''), w1))
      \<and> (all_present (mp_body req) \<and> \<not> mp_image req \<longrightarrow>
         post_products e req w = (respond 400 (Error ''Product image is required''), w1))
      \<and> (all_present (mp_body req) \<and> mp_image req
           \<and> regex_test (b_whatsapp (mp_body req)) = Inr False \<longrightarrow>
         post_products e req w = (respond 400 (Error ''Invalid WhatsApp number format''), w1)))
   \<and> (status (fst (post_products e req w)) = 400 \<longrightarrow>
        docs (snd (post_products e req w)) = docs w
        \<and> db_writes (snd (post_products e req w)) = db_writes w)"
proof -
  have order:
    "(\<not> all_present (mp_body req) \<longrightarrow>
         post_products e req w = (respond 400 (Error ''All fields are required''), w1))
      \<and> (all_present (mp_body req) \<and> \<not> mp_image req \<longrightarrow>
         post_products e req w = (respond 400 (Error ''Product image is required''), w1))
      \<and> (all_present (mp_body req) \<and> mp_image req
           \<and> regex_test (b_whatsapp (mp_body req)) = Inr False \<longrightarrow>
         post_products e req w = (respond 400 (Error ''Invalid WhatsApp number format''), w1))"
    if up: "upload_single e req w = (Inr f, w1)"
  proof -
    from up have "f = None \<longleftrightarrow> \<not> mp_image req"
      by (auto simp: upload_single_def split: if_splits prod.splits sum.splits)
    with up show ?thesis
      by (simp add: post_products_def post_products_handler_def)
  qed
  have kept: "docs (snd (post_products e req w)) = docs w
              \<and> db_writes (snd (post_products e req w)) = db_writes w"
    if st: "status (fst (post_products e req w)) = 400"
  proof (cases "upload_single e req w")
    case (Pair r w2)
    then have w2: "docs w2 = docs w" "db_writes w2 = db_writes w"
      using upload_single_listings [of e req w] by simp_all
    show ?thesis
    proof (cases r)
      case (Inl x)
      with Pair w2 show ?thesis
        by (simp add: post_products_def)
    next
      case (Inr f2)
      with Pair st have "status (fst (post_products_handler e (mp_body req) f2 w2)) = 400"
        by (simp add: post_products_def)
      then have "snd (post_products_handler e (mp_body req) f2 w2) = w2"
        by (auto simp: post_products_handler_def respond_def
            split: if_splits sum.splits prod.splits bool.splits)
      with Pair Inr w2 show ?thesis
        by (simp add: post_products_def)
    qed
  qed
  from order kept show ?thesis
    by blast
qed

theorem multipart_validation_order_witness:
  "post_products env0 nameless_multipart world0
       = (respond 400 (Error ''All fields are required''), desk_uploaded)
   \<and> post_products env0 bad_multipart_no_image world0
       = (respond 400 (Error ''Product image is required''), world0)
   \<and> post_products env0 bad_multipart world0
       = (respond 400 (Error ''Invalid WhatsApp number format''), desk_uploaded)
   \<and> docs (snd (post_products env0 bad_multipart world0)) = docs world0
   \<and> db_writes (snd (post_products env0 bad_multipart world0)) = db_writes world0"
proof -
  have u1: "upload_single env0 nameless_multipart world0 = (Inr (Some desk_image), desk_uploaded)"
    by code_simp
  have u2: "upload_single env0 bad_multipart_no_image world0 = (Inr None, world0)"
    by code_simp
  have u3: "upload_single env0 bad_multipart world0 = (Inr (Some desk_image), desk_uploaded)"
    by code_simp
  have h1: "\<not> all_present (mp_body nameless_multipart)"
    by code_simp
  have h2: "all_present (mp_body bad_multipart_no_image) \<and> \<not> mp_image bad_multipart_no_image"
    by code_simp
  have h3: "all_present (mp_body bad_multipart) \<and> mp_image bad_multipart
            \<and> regex_test (b_whatsapp (mp_body bad_multipart)) = Inr False"
    by code_simp
  have c1: "post_products env0 nameless_multipart world0
              = (respond 400 (Error ''All fields are required''), desk_uploaded)"
    using u1 h1 multipart_validation_order [of env0 nameless_multipart world0 "Some desk_image" desk_uploaded]
    by blast
  have c2: "post_products env0 bad_multipart_no_image world0
              = (respond 400 (Error ''Product image is required''), world0)"
    using u2 h2 multipart_validation_order [of env0 bad_multipart_no_image world0 None world0]
    by blast
  have c3: "post_products env0 bad_multipart world0
              = (respond 400 (Error ''Invalid WhatsApp number format''), desk_uploaded)"
    using u3 h3 multipart_validation_order [of env0 bad_multipart world0 "Some desk_image" desk_uploaded]
    by blast
  have h4: "status (fst (post_products env0 bad_multipart world0)) = 400"
    by (simp add: c3 respond_def)
  have c4: "docs (snd (post_products env0 bad_multipart world0)) = docs world0
            \<and> db_writes (snd (post_products env0 bad_multipart world0)) = db_writes world0"
    using h4 multipart_validation_order [of env0 bad_multipart world0 "Some desk_image" desk_uploaded]
    by blast
  show ?thesis
    using c1 c2 c3 c4 by blast
qed

text \<open>
  C7 as stated fails: with all text fields present, a malformed phone number and no
  image, the 400 names the missing image, not the phone number.
\<close>

theorem multipart_validation_order_counterexample:
  "all_present (mp_body bad_multipart_no_image)
   \<and> regex_test (b_whatsapp (mp_body bad_multipart_no_image)) = Inr False
   \<and> mp_image bad_multipart_no_image = False
   \<and> fst (post_products env0 bad_multipart_no_image world0)
       = respond 400 (Error ''Product image is required'')
   \<and> body (fst (post_products env0 bad_multipart_no_image world0))
       \<noteq> Error ''Invalid WhatsApp number format''"
  by code_simp

section \<open>The demo fallback of the file-backed listing query\<close>

text \<open>
  C10.  In the file-backed implementation, when reading \<^verbatim>\<open>products.json\<close> fails
  (the file does not exist, or the API refuses the request), GET /api/products
  answers 200 with \<^verbatim>\<open>success: true\<close>, \<^verbatim>\<open>source: "demo"\<close> and the three
  built-in listings with ids 1, 2, 3, stamped with the time of the request; it
  answers neither an empty list nor an error.
\<close>

theorem demo_fallback:
  assumes "products_json g = None \<or> \<not> api_ok g"
  shows "get_products_file t g = respond 200 (Listing (demoProducts t) ''demo'')
         \<and> map fid (demoProducts t) = [1, 2, 3]
         \<and> map fdateAdded (demoProducts t) = [t, t, t]
         \<and> map fname (demoProducts t)
             = [str ''Gaming Laptop RTX 3060'', str ''Study Table with Storage'',
                str ''Mountain Bike Trek'']"
proof -
  from assms have "github_get g = Inl GitHubError"
    by (auto simp: github_get_def)
  then have "get_products_file t g = respond 200 (Listing (demoProducts t) ''demo'')"
    by (simp add: get_products_file_def)
  then show ?thesis
    by (simp add: demoProducts_def)
qed

theorem demo_fallback_witness:
  "get_products_file 1700000000000 no_file
     = respond 200 (Listing (demoProducts 1700000000000) ''demo'')
   \<and> length (demoProducts 1700000000000) = 3"
proof -
  have h: "products_json no_file = None \<or> \<not> api_ok no_file"
    by (simp add: no_file_def)
  from demo_fallback [OF h, of 1700000000000]
  have "get_products_file 1700000000000 no_file
          = respond 200 (Listing (demoProducts 1700000000000) ''demo'')
        \<and> map fid (demoProducts 1700000000000) = [1, 2, 3]"
    by blast
  moreover from this have "length (demoProducts 1700000000000) = 3"
    using length_map [of fid "demoProducts 1700000000000"] by simp
  ultimately show ?thesis
    by blast
qed

section \<open>Status and body of a successful create\<close>

lemma handler_persisted:
  assumes "docs (snd (post_products_handler e b f w)) \<noteq> docs w"
  shows "\<exists>p. fst (post_products_handler e b f w) = respond 201 (Product p)
            \<and> docs (snd (post_products_handler e b f w)) = docs w @ [p]"
  using assms
  by (auto simp: post_products_handler_def docs_cleanup_upload
      split: if_splits sum.splits prod.splits bool.splits dest: Product_save_docs)

lemma post_products_persisted:
  assumes "docs (snd (post_products e req w)) \<noteq> docs w"
  shows "\<exists>p. fst (post_products e req w) = respond 201 (Product p)
            \<and> docs (snd (post_products e req w)) = docs w @ [p]"
proof (cases "upload_single e req w")
  case (Pair r w1)
  then have w1: "docs w1 = docs w"
    using upload_single_listings [of e req w] by simp
  show ?thesis
  proof (cases r)
    case (Inl x)
    with Pair w1 assms show ?thesis
      by (simp add: post_products_def)
  next
    case (Inr f)
    with Pair w1 assms have "docs (snd (post_products_handler e (mp_body req) f w1)) \<noteq> docs w1"
      by (simp add: post_products_def)
    from handler_persisted [OF this] Pair Inr w1 show ?thesis
      by (simp add: post_products_def)
  qed
qed

lemma post_products_base64_persisted:
  assumes "docs (snd (post_products_base64 e req w)) \<noteq> docs w"
  shows "\<exists>p. fst (post_products_base64 e req w) = respond 201 (Product p)
            \<and> docs (snd (post_products_base64 e req w)) = docs w @ [p]"
proof -
  have tested: "regex_test (b_whatsapp (b64_body req)) = Inr True"
  proof (rule ccontr)
    assume "regex_test (b_whatsapp (b64_body req)) \<noteq> Inr True"
    then have "snd (post_products_base64 e req w) = w"
      by (rule post_products_base64_no_write)
    with assms show False
      by simp
  qed
  have present: "\<not> (\<not> all_present (b64_body req) \<or> \<not> truthy (imageBase64 req))"
  proof
    assume "\<not> all_present (b64_body req) \<or> \<not> truthy (imageBase64 req)"
    then have "snd (post_products_base64 e req w) = w"
      by (simp add: post_products_base64_def)
    with assms show False
      by simp
  qed
  obtain r w1 where up: "cloudinary_upload e w = (r, w1)"
    by (cases "cloudinary_upload e w")
  then have w1: "docs w1 = docs w"
    using cloudinary_upload_listings [of e w] by simp
  show ?thesis
  proof (cases r)
    case (Inl x)
    with up w1 tested present assms show ?thesis
      by (simp add: post_products_base64_def)
  next
    case (Inr uploaded)
    show ?thesis
    proof (cases "build_productData (b64_body req) (fst uploaded) (snd uploaded)")
      case (Inl x)
      with Inr up w1 tested present assms show ?thesis
        by (simp add: post_products_base64_def)
    next
      case built: (Inr d)
      obtain r2 w2 where saved: "Product_save e d w1 = (r2, w2)"
        by (cases "Product_save e d w1")
      from Product_save_docs [OF saved] show ?thesis
      proof
        assume "\<exists>p. r2 = Inr p \<and> docs w2 = docs w1 @ [p]"
        with Inr built up w1 tested present saved show ?thesis
          by (auto simp: post_products_base64_def)
      next
        assume "(\<exists>x. r2 = Inl x) \<and> docs w2 = docs w1"
        with Inr built up w1 tested present saved assms show ?thesis
          by (auto simp: post_products_base64_def)
      qed
    qed
  qed
qed

lemma post_products_file_persisted:
  assumes "products_json (snd (post_products_file e req g)) \<noteq> products_json g"
  shows "\<exists>p. fst (post_products_file e req g) = respond 200 (Added ''Product added successfully'' p)
            \<and> products_json (snd (post_products_file e req g))
                = Some (p # (case products_json g of None \<Rightarrow> [] | Some ps \<Rightarrow> ps))"
  using assms
  by (auto simp: post_products_file_def post_products_file_start_def carry_out_def finish_def
        github_put_def github_get_def Let_def
      split: if_splits sum.splits prod.splits option.splits bool.splits)

lemma post_products_minimal_persisted:
  assumes "m_docs (snd (post_products_minimal e b w)) \<noteq> m_docs w"
  shows "\<exists>p. fst (post_products_minimal e b w) = Some (respond 200 p)
            \<and> m_docs (snd (post_products_minimal e b w)) = m_docs w @ [p]"
  using assms
  by (auto simp: post_products_minimal_def Let_def split: if_splits)

text \<open>
  C9, as amended.  A create is successful when it has changed the listing store.
  Every successful create answers with the created listing, which is then the
  listing added to the store.  The status is 201 in the document-store
  implementation (POST /api/products and POST /api/products/base64); it is 200 in
  the file-backed implementation, whose body is the envelope with
  \<^verbatim>\<open>success: true\<close>, the message and the listing, and 200 in the minimal
  implementation.
\<close>

theorem create_success_response:
  "(docs (snd (post_products e mreq w)) \<noteq> docs w \<longrightarrow>
      (\<exists>p. fst (post_products e mreq w) = respond 201 (Product p)
           \<and> docs (snd (post_products e mreq w)) = docs w @ [p]))
   \<and> (docs (snd (post_products_base64 e breq w)) \<noteq> docs w \<longrightarrow>
      (\<exists>p. fst (post_products_base64 e breq w) = respond 201 (Product p)
           \<and> docs (snd (post_products_base64 e breq w)) = docs w @ [p]))
   \<and> (products_json (snd (post_products_file e freq g)) \<noteq> products_json g \<longrightarrow>
      (\<exists>p. fst (post_products_file e freq g)
              = respond 200 (Added ''Product added successfully'' p)
           \<and> products_json (snd (post_products_file e freq g))
              = Some (p # (case products_json g of None \<Rightarrow> [] | Some ps \<Rightarrow> ps))))
   \<and> (m_docs (snd (post_products_minimal e mb mw)) \<noteq> m_docs mw \<longrightarrow>
      (\<exists>p. fst (post_products_minimal e mb mw) = Some (respond 200 p)
           \<and> m_docs (snd (post_products_minimal e mb mw)) = m_docs mw @ [p]))"
  using post_products_persisted [of e mreq w] post_products_base64_persisted [of e breq w]
    post_products_file_persisted [of e freq g] post_products_minimal_persisted [of e mb mw]
  by blast

theorem create_success_response_witness:
  "docs (snd (post_products env0 desk_multipart world0)) \<noteq> docs world0
   \<and> docs (snd (post_products_base64 env0 desk_base64 world0)) \<noteq> docs world0
   \<and> products_json (snd (post_products_file env0 desk_json no_file)) \<noteq> products_json no_file
   \<and> m_docs (snd (post_products_minimal env0 mini_desk mini_world0)) \<noteq> m_docs mini_world0
   \<and> (\<exists>p. fst (post_products env0 desk_multipart world0) = respond 201 (Product p))
   \<and> (\<exists>p. fst (post_products_base64 env0 desk_base64 world0) = respond 201 (Product p))
   \<and> (\<exists>p. fst (post_products_file env0 desk_json no_file)
             = respond 200 (Added ''Product added successfully'' p))
   \<and> (\<exists>p. fst (post_products_minimal env0 mini_desk mini_world0) = Some (respond 200 p))"
proof -
  have h:
    "docs (snd (post_products env0 desk_multipart world0)) \<noteq> docs world0"
    "docs (snd (post_products_base64 env0 desk_base64 world0)) \<noteq> docs world0"
    "products_json (snd (post_products_file env0 desk_json no_file)) \<noteq> products_json no_file"
    "m_docs (snd (post_products_minimal env0 mini_desk mini_world0)) \<noteq> m_docs mini_world0"
    by code_simp+
  note inst = create_success_response
    [where e = env0 and mreq = desk_multipart and breq = desk_base64 and freq = desk_json
       and w = world0 and g = no_file and mb = mini_desk and mw = mini_world0]
  from h inst show ?thesis
    by blast
qed

text \<open>
  C9 as stated fails in the file-backed implementation: the create of the desk on
  a repository without \<^verbatim>\<open>products.json\<close> succeeds, the file then holds the
  listing, and the status is 200.
\<close>

theorem create_success_response_counterexample:
  "post_products_file env0 desk_json no_file
     = (respond 200 (Added ''Product added successfully'' desk_fproduct), one_file)
   \<and> products_json one_file = Some [desk_fproduct]
   \<and> status (fst (post_products_file env0 desk_json no_file)) \<noteq> 201"
  by code_simp

section \<open>Deleting an identifier that denotes no listing\<close>

lemma findIndex_None: "findIndex P xs = None \<longleftrightarrow> (\<forall>x \<in> set xs. \<not> P x)"
  by (induction xs) auto

lemma delete_product_absent:
  assumes "db_up w" and "\<forall>p \<in> set (docs w). pid p \<noteq> i"
  shows "delete_product (ObjectId i) w = (respond 404 (Error ''Product not found''), w)"
proof -
  from assms(2) have "find (\<lambda>p. pid p = i) (docs w) = None"
    by (simp add: find_None_iff)
  with assms(1) show ?thesis
    by (simp add: delete_product_def Product_findById_def)
qed

lemma delete_product_unchanged:
  assumes "\<forall>p \<in> set (docs w). ip \<noteq> ObjectId (pid p)"
  shows "snd (delete_product ip w) = w"
proof (cases ip)
  case (ObjectId i)
  with assms have "find (\<lambda>p. pid p = i) (docs w) = None"
    by (auto simp: find_None_iff)
  with ObjectId show ?thesis
    by (simp add: delete_product_def Product_findById_def)
next
  case Uncastable
  then show ?thesis
    by (simp add: delete_product_def Product_findById_def)
qed

lemma delete_product_file_absent:
  assumes "api_ok g" and "products_json g = Some ps"
    and "\<forall>p \<in> set ps. \<not> denotes s p"
  shows "delete_product_file s g = (respond 404 (Failure ''Product not found''), g)"
proof -
  from assms(3) have "findIndex (\<lambda>p. Some (Finite (fid p)) = parseInt s) ps = None"
    by (auto simp: findIndex_None denotes_def)
  with assms(1,2) show ?thesis
    by (simp add: delete_product_file_def delete_product_file_start_def carry_out_def
        github_get_def Let_def)
qed

lemma delete_product_file_unchanged:
  assumes "\<forall>ps. products_json g = Some ps \<longrightarrow> (\<forall>p \<in> set ps. \<not> denotes s p)"
  shows "snd (delete_product_file s g) = g"
proof (cases "github_get g")
  case (Inl x)
  then show ?thesis
    by (simp add: delete_product_file_def delete_product_file_start_def carry_out_def Let_def)
next
  case (Inr f)
  then have "api_ok g" "products_json g = Some (fst f)"
    by (auto simp: github_get_def split: if_splits option.splits)
  with assms show ?thesis
    using delete_product_file_absent [of g "fst f" s] by simp
qed

text \<open>
  C4, as amended.  For every store state and every identifier that denotes no
  listing of the store, the delete operation leaves the store as it was: no listing
  removed, no image deleted, no write attempted.  It answers 404 whenever the store
  can be looked up.  In the document-store implementation an identifier denotes the
  document whose ObjectId it casts to, and the store can be looked up when the
  identifier casts and the database answers.  In the file-backed implementation an
  identifier denotes the listing whose id is the number that \<^verbatim>\<open>parseInt\<close> reads
  from it (its leading integer, rounded to a double), and the store can be looked
  up when \<^verbatim>\<open>products.json\<close> exists and can be read.
\<close>

theorem delete_absent_id:
  "(db_up w \<and> (\<forall>p \<in> set (docs w). pid p \<noteq> i) \<longrightarrow>
      delete_product (ObjectId i) w = (respond 404 (Error ''Product not found''), w))
   \<and> ((\<forall>p \<in> set (docs w). ip \<noteq> ObjectId (pid p)) \<longrightarrow> snd (delete_product ip w) = w)
   \<and> (api_ok g \<and> products_json g = Some ps \<and> (\<forall>p \<in> set ps. \<not> denotes s p) \<longrightarrow>
      delete_product_file s g = (respond 404 (Failure ''Product not found''), g))
   \<and> ((\<forall>ps. products_json g = Some ps \<longrightarrow> (\<forall>p \<in> set ps. \<not> denotes s p)) \<longrightarrow>
      snd (delete_product_file s g) = g)"
  using delete_product_absent [of w i] delete_product_unchanged [of w ip]
    delete_product_file_absent [of g ps s] delete_product_file_unchanged [of g s]
  by blast

theorem delete_absent_id_witness:
  "delete_product (ObjectId 8) world1 = (respond 404 (Error ''Product not found''), world1)
   \<and> snd (delete_product Uncastable world1) = world1
   \<and> delete_product_file (str ''5'') one_file = (respond 404 (Failure ''Product not found''), one_file)
   \<and> snd (delete_product_file (str ''5'') no_file) = no_file"
proof -
  have h1: "db_up world1 \<and> (\<forall>p \<in> set (docs world1). pid p \<noteq> 8)"
    by code_simp
  have h2: "\<forall>p \<in> set (docs world1). Uncastable \<noteq> ObjectId (pid p)"
    by simp
  have h3: "api_ok one_file \<and> products_json one_file = Some [desk_fproduct]
            \<and> (\<forall>p \<in> set [desk_fproduct]. \<not> denotes (str ''5'') p)"
    by code_simp
  have h4: "\<forall>ps. products_json no_file = Some ps \<longrightarrow> (\<forall>p \<in> set ps. \<not> denotes (str ''5'') p)"
    by (simp add: no_file_def)
  note present = delete_absent_id
    [where w = world1 and i = 8 and ip = Uncastable and g = one_file
       and ps = "[desk_fproduct]" and s = "str ''5''"]
  note missing = delete_absent_id
    [where w = world1 and i = 8 and ip = Uncastable and g = no_file
       and ps = "[desk_fproduct]" and s = "str ''5''"]
  from h1 h2 h3 present have
    "delete_product (ObjectId 8) world1 = (respond 404 (Error ''Product not found''), world1)
     \<and> snd (delete_product Uncastable world1) = world1
     \<and> delete_product_file (str ''5'') one_file = (respond 404 (Failure ''Product not found''), one_file)"
    by blast
  moreover from h4 missing have "snd (delete_product_file (str ''5'') no_file) = no_file"
    by blast
  ultimately show ?thesis
    by blast
qed

text \<open>
  C4 as stated fails twice in the file-backed implementation.  On a repository
  without \<^verbatim>\<open>products.json\<close> no identifier is in the store, and the delete handler
  answers 500, since its read of the file throws; the store is unchanged.  And the
  identifier \<^verbatim>\<open>1700000000000abc\<close>, which is the id of no listing, removes the
  listing 1700000000000 with a 200, since the handler reads it with
  \<^verbatim>\<open>parseInt\<close>.
\<close>

theorem delete_absent_id_counterexample:
  "products_json no_file = None
   \<and> delete_product_file (str ''5'') no_file
       = (respond 500 (Failure ''Failed to delete product''), no_file)
   \<and> status (fst (delete_product_file (str ''5'') no_file)) \<noteq> 404
   \<and> products_json one_file = Some [desk_fproduct]
   \<and> fid desk_fproduct = 1700000000000
   \<and> fst (delete_product_file (str ''1700000000000abc'') one_file)
       = respond 200 (Deleted ''Product deleted successfully'' desk_fproduct)
   \<and> products_json (snd (delete_product_file (str ''1700000000000abc'') one_file)) = Some []"
  by code_simp

text \<open>
  The identifier is read as a double: \<^verbatim>\<open>9007199254740993\<close> denotes the listing
  whose id is \<open>2^53 = 9007199254740992\<close>, and deletes it.
\<close>

lemma delete_rounds_identifier:
  "denotes (str ''9007199254740993'') (desk_fproduct\<lparr>fid := 9007199254740992\<rparr>)
   \<and> products_json (snd (delete_product_file (str ''9007199254740993'') big_file)) = Some []"
  by code_simp

section \<open>Create, then fetch by id\<close>

lemma find_append:
  "find P (xs @ ys) = (case find P xs of None \<Rightarrow> find P ys | Some x \<Rightarrow> Some x)"
  by (induction xs) auto

lemma trim_Nil: "trim [] = []"
  by (simp add: trim_def)

lemma drop_trailing_keeps_head:
  assumes "xs \<noteq> []" and "\<not> P (hd xs)"
  shows "\<exists>zs. rev (dropWhile P (rev xs)) = hd xs # zs"
proof -
  from assms(1) obtain x ys where xs: "xs = x # ys"
    by (cases xs) auto
  with assms(2) have "dropWhile P (rev ys @ [x]) = (if \<forall>y \<in> set (rev ys). P y then [x] else dropWhile P (rev ys) @ [x])"
    by (simp add: dropWhile_append)
  then obtain us where "dropWhile P (rev xs) = us @ [x]"
    using xs by (cases "\<forall>y \<in> set (rev ys). P y") auto
  then have "rev (dropWhile P (rev xs)) = x # rev us"
    by simp
  with xs show ?thesis
    by simp
qed

lemma trim_idem: "trim (trim s) = trim s"
proof -
  define u where "u = dropWhile is_ws s"
  define t where "t = rev (dropWhile is_ws (rev u))"
  have u: "u = [] \<or> \<not> is_ws (hd u)"
    unfolding u_def using hd_dropWhile [of is_ws s] by blast
  have at_back: "dropWhile is_ws (rev t) = rev t"
    by (simp add: t_def dropWhile_idem)
  have at_front: "dropWhile is_ws t = t"
  proof (cases "u = []")
    case True
    then show ?thesis by (simp add: t_def)
  next
    case False
    with u have "\<not> is_ws (hd u)"
      by simp
    with False obtain zs where "t = hd u # zs"
      unfolding t_def using drop_trailing_keeps_head [of u is_ws] by blast
    with \<open>\<not> is_ws (hd u)\<close> show ?thesis
      by simp
  qed
  have "trim s = t"
    by (simp add: trim_def t_def u_def)
  moreover have "trim t = t"
    using at_front at_back by (simp add: trim_def)
  ultimately show ?thesis
    by simp
qed

lemma parseInt_Nil: "parseInt [] = None"
  by (simp add: parseInt_def)

lemma conditions_nonempty: "c \<in> set conditions \<Longrightarrow> c \<noteq> []"
  by (auto simp: conditions_def str_def)

text \<open>
  C2.  A multipart create whose fields are valid (name, seller and description
  not empty once trimmed, a price that \<^verbatim>\<open>parseInt\<close> reads as an integer of at
  least 1, a phone number matching the expression, a condition of the enumeration)
  and whose image the image host accepts, sent while the database is reachable and
  with a fresh identifier, is answered 201 with the listing; fetching that listing
  by its identifier answers 200 with the same record, whose name, seller, phone
  number and description are the trimmed inputs, whose price is the integer that
  \<^verbatim>\<open>parseInt\<close> reads from the input (a double), whose condition is the input,
  and whose identifier and \<^verbatim>\<open>dateAdded\<close> are the generated ones.
\<close>

theorem create_then_fetch:
  assumes fields: "mp_body req = \<lparr>b_name = JStr n, b_price = JStr pr, b_seller = JStr s,
                      b_whatsapp = JStr wa, b_condition = JStr c, b_description = JStr d\<rparr>"
    and image: "mp_image req" "cloud_up w" "upload_result e = Some (url, k)" "url \<noteq> []"
    and valid: "trim n \<noteq> []" "parseInt pr = Some (Finite m)" "1 \<le> m" "trim s \<noteq> []"
      "whatsapp_test wa" "c \<in> set conditions" "trim d \<noteq> []"
    and store: "db_up w" "new_id e \<notin> set (map pid (docs w))"
  shows "\<exists>p w'. post_products e req w = (respond 201 (Product p), w')
           \<and> get_product (ObjectId (pid p)) w' = respond 200 (Product p)
           \<and> name p = trim n \<and> price p = Finite m \<and> seller p = trim s \<and> whatsapp p = trim wa
           \<and> condition p = c \<and> description p = trim d
           \<and> pid p = new_id e \<and> dateAdded p = now e"
proof -
  let ?p = "\<lparr>pid = new_id e, name = trim n, price = Finite m, seller = trim s, whatsapp = wa,
             condition = c, description = trim d, imagePath = url,
             imagePublicId = Some k, dateAdded = now e, isActive = True\<rparr>"
  let ?d = "\<lparr>d_name = trim n, d_price = Some (Finite m), d_seller = trim s, d_whatsapp = wa,
             d_condition = JStr c, d_description = trim d, d_imagePath = url,
             d_imagePublicId = k\<rparr>"
  let ?f = "Some \<lparr>path = url, filename = k\<rparr>"
  let ?w1 = "w\<lparr>images := insert k (images w)\<rparr>"
  let ?w' = "?w1\<lparr>db_writes := Suc (db_writes ?w1), docs := docs ?w1 @ [?p]\<rparr>"
  have wa: "trim wa = wa"
    using valid(5) by (rule whatsapp_test_trim)
  have up: "upload_single e req w = (Inr ?f, ?w1)"
    using image by (simp add: upload_single_def cloudinary_upload_def)
  have present: "all_present (mp_body req)"
    using fields valid trim_Nil parseInt_Nil conditions_nonempty [of c]
      whatsapp_test_digits [of wa]
    by (auto simp: all_present_def)
  have tested: "regex_test (b_whatsapp (mp_body req)) = Inr True"
    using fields valid(5) by (simp add: regex_test_def)
  have data: "build_productData (mp_body req) url k = Inr ?d"
    using fields valid(2) wa by (simp add: build_productData_def js_parseInt_def)
  have new: "new_Product e ?d = Some ?p"
    by (simp add: new_Product_def trim_idem)
  have ok: "validate ?p"
    using valid image(4) by (simp add: validate_def)
  have save: "Product_save e ?d ?w1 = (Inr ?p, ?w')"
    using new ok store by (simp add: Product_save_def Let_def)
  have post: "post_products e req w = (respond 201 (Product ?p), ?w')"
    using up present tested data save
    by (simp add: post_products_def post_products_handler_def)
  have "find (\<lambda>q. pid q = new_id e) (docs w) = None"
    using store(2) by (force simp: find_None_iff)
  then have "find (\<lambda>q. pid q = new_id e) (docs ?w') = Some ?p"
    by (simp add: find_append)
  then have fetch: "get_product (ObjectId (pid ?p)) ?w' = respond 200 (Product ?p)"
    using store(1) by (simp add: get_product_def Product_findById_def)
  from post fetch wa show ?thesis
    by (intro exI [of _ ?p] exI [of _ ?w']) simp
qed

theorem create_then_fetch_witness:
  "\<exists>p w'. post_products env0 desk_multipart world0 = (respond 201 (Product p), w')
          \<and> get_product (ObjectId (pid p)) w' = respond 200 (Product p)
          \<and> name p = trim (str ''Desk'') \<and> price p = Finite 2000 \<and> seller p = trim (str ''A'')
          \<and> whatsapp p = trim (str ''919999999999'') \<and> condition p = str ''Good''
          \<and> description p = trim (str ''x'')
          \<and> pid p = new_id env0 \<and> dateAdded p = now env0"
proof -
  have h1: "mp_body desk_multipart = \<lparr>b_name = JStr (str ''Desk''), b_price = JStr (str ''2000''),
       b_seller = JStr (str ''A''), b_whatsapp = JStr (str ''919999999999''),
       b_condition = JStr (str ''Good''), b_description = JStr (str ''x'')\<rparr>"
    by (simp add: desk_multipart_def desk_def)
  have h2: "mp_image desk_multipart" "cloud_up world0"
    "upload_result env0 = Some (str ''https://img.example/desk.jpg'', str ''products/desk'')"
    "str ''https://img.example/desk.jpg'' \<noteq> []"
    by code_simp+
  have h3: "trim (str ''Desk'') \<noteq> []" "parseInt (str ''2000'') = Some (Finite 2000)" "(1::int) \<le> 2000"
    "trim (str ''A'') \<noteq> []" "whatsapp_test (str ''919999999999'')"
    "str ''Good'' \<in> set conditions" "trim (str ''x'') \<noteq> []"
    by code_simp+
  have h4: "db_up world0" "new_id env0 \<notin> set (map pid (docs world0))"
    by code_simp+
  from create_then_fetch [OF h1 h2 h3 h4] show ?thesis
    by blast
qed

text \<open>
  The price is a double: a create with the price \<^verbatim>\<open>9007199254740993\<close> stores
  and returns \<open>2^53 = 9007199254740992\<close>.
\<close>

lemma create_rounds_price:
  "parseInt (str ''9007199254740993'') = Some (Finite 9007199254740992)
   \<and> map price (docs (snd (post_products env0
        (desk_multipart\<lparr>mp_body := desk\<lparr>b_price := JStr (str ''9007199254740993'')\<rparr>\<rparr>) world0)))
     = [Finite 9007199254740992]"
  by code_simp

section \<open>Order of the listing query\<close>

lemma sort_keys_distinct:
  "str ''price_low'' \<noteq> str ''price_high''" "str ''price_low'' \<noteq> str ''name''"
  "str ''price_high'' \<noteq> str ''name''"
  by (simp_all add: str_def)

lemma descending_rev_sort_key:
  fixes f :: "'a \<Rightarrow> 'k::linorder"
  shows "sorted_wrt (\<lambda>a b. b \<le> a) (map f (rev (sort_key f xs)))"
proof -
  have "sorted (map f (sort_key f xs))"
    by (rule sorted_sort_key)
  then show ?thesis
    by (simp add: rev_map [symmetric] sorted_wrt_rev)
qed

lemma get_products_200:
  assumes "get_products rx q w = respond 200 (Products ps)"
  shows "\<exists>xs. ps = mongo_sort (build_sort q) xs \<and> set xs \<subseteq> set (docs w)"
  using assms
  by (auto simp: get_products_def Product_find_def respond_def
      split: sum.splits if_splits option.splits)

text \<open>
  C3.  Whenever the listing query of the document-store implementation answers with
  listings, they are ordered by the \<^verbatim>\<open>sort\<close> parameter: \<^verbatim>\<open>price_low\<close> gives
  prices that never decrease, \<^verbatim>\<open>price_high\<close> prices that never increase,
  \<^verbatim>\<open>name\<close> names in ascending order, and any other value, or none, gives
  \<^verbatim>\<open>dateAdded\<close> values that never increase.
\<close>

theorem listing_order:
  assumes "get_products rx q w = respond 200 (Products ps)"
  shows "(q_sort q = Some (str ''price_low'') \<longrightarrow> sorted (map price ps))
       \<and> (q_sort q = Some (str ''price_high'') \<longrightarrow> sorted_wrt (\<lambda>a b. b \<le> a) (map price ps))
       \<and> (q_sort q = Some (str ''name'') \<longrightarrow> sorted (map name ps))
       \<and> (q_sort q \<noteq> Some (str ''price_low'') \<and> q_sort q \<noteq> Some (str ''price_high'')
            \<and> q_sort q \<noteq> Some (str ''name'') \<longrightarrow>
          sorted_wrt (\<lambda>a b. b \<le> a) (map dateAdded ps))"
proof -
  from get_products_200 [OF assms] obtain xs where ps: "ps = mongo_sort (build_sort q) xs"
    by blast
  have low: "sorted (map price ps)" if "q_sort q = Some (str ''price_low'')"
    using that ps sort_keys_distinct by (simp add: build_sort_def)
  have high: "sorted_wrt (\<lambda>a b. b \<le> a) (map price ps)" if "q_sort q = Some (str ''price_high'')"
    using that ps sort_keys_distinct descending_rev_sort_key [of price xs]
    by (simp add: build_sort_def)
  have by_name: "sorted (map name ps)" if "q_sort q = Some (str ''name'')"
    using that ps by (simp add: build_sort_def)
  have newest: "sorted_wrt (\<lambda>a b. b \<le> a) (map dateAdded ps)"
    if "q_sort q \<noteq> Some (str ''price_low'')" "q_sort q \<noteq> Some (str ''price_high'')"
      "q_sort q \<noteq> Some (str ''name'')"
    using that ps descending_rev_sort_key [of dateAdded xs] by (simp add: build_sort_def)
  from low high by_name newest show ?thesis
    by blast
qed

theorem listing_order_witness:
  "get_products no_regex (sort_by ''price_low'') world3
     = respond 200 (Products [lamp_listing, chair_listing, desk_listing])
   \<and> sorted (map price [lamp_listing, chair_listing, desk_listing])
   \<and> get_products no_regex (sort_by ''price_high'') world3
     = respond 200 (Products [desk_listing, chair_listing, lamp_listing])
   \<and> sorted_wrt (\<lambda>a b. b \<le> a) (map price [desk_listing, chair_listing, lamp_listing])
   \<and> get_products no_regex (sort_by ''name'') world3
     = respond 200 (Products [chair_listing, desk_listing, lamp_listing])
   \<and> sorted (map name [chair_listing, desk_listing, lamp_listing])
   \<and> get_products no_regex no_query world3
     = respond 200 (Products [chair_listing, lamp_listing, desk_listing])
   \<and> sorted_wrt (\<lambda>a b. b \<le> a) (map dateAdded [chair_listing, lamp_listing, desk_listing])"
proof -
  have r1: "get_products no_regex (sort_by ''price_low'') world3
              = respond 200 (Products [lamp_listing, chair_listing, desk_listing])"
    by code_simp
  have r2: "get_products no_regex (sort_by ''price_high'') world3
              = respond 200 (Products [desk_listing, chair_listing, lamp_listing])"
    by code_simp
  have r3: "get_products no_regex (sort_by ''name'') world3
              = respond 200 (Products [chair_listing, desk_listing, lamp_listing])"
    by code_simp
  have r4: "get_products no_regex no_query world3
              = respond 200 (Products [chair_listing, lamp_listing, desk_listing])"
    by code_simp
  have k1: "q_sort (sort_by ''price_low'') = Some (str ''price_low'')"
    and k2: "q_sort (sort_by ''price_high'') = Some (str ''price_high'')"
    and k3: "q_sort (sort_by ''name'') = Some (str ''name'')"
    and k4: "q_sort no_query \<noteq> Some (str ''price_low'') \<and> q_sort no_query \<noteq> Some (str ''price_high'')
            \<and> q_sort no_query \<noteq> Some (str ''name'')"
    by (simp_all add: sort_by_def no_query_def)
  from listing_order [OF r1] k1 have "sorted (map price [lamp_listing, chair_listing, desk_listing])"
    by blast
  moreover from listing_order [OF r2] k2
  have "sorted_wrt (\<lambda>a b. b \<le> a) (map price [desk_listing, chair_listing, lamp_listing])"
    by blast
  moreover from listing_order [OF r3] k3 have "sorted (map name [chair_listing, desk_listing, lamp_listing])"
    by blast
  moreover from listing_order [OF r4] k4
  have "sorted_wrt (\<lambda>a b. b \<le> a) (map dateAdded [chair_listing, lamp_listing, desk_listing])"
    by blast
  ultimately show ?thesis
    using r1 r2 r3 r4 by blast
qed

section \<open>The statistics handler\<close>

lemma get_stats_value:
  assumes "db_up w"
  shows "get_stats w =
           respond 200 (Stats (Number (of_nat (length (filter isActive (docs w))))) Undefined
             (first_avg_or_0 (Groups (if filter isActive (docs w) = [] then []
                else [average (map price (filter isActive (docs w)))]))))"
  using assms by (simp add: get_stats_def exec_query_def)

text \<open>
  C6 fails on the code.  With three active listings of two sellers, GET /api/stats
  answers 200 with \<^verbatim>\<open>totalProducts\<close> 3 and \<^verbatim>\<open>averagePrice\<close> 3400/3, as claimed,
  but \<^verbatim>\<open>totalSellers\<close> is \<^verbatim>\<open>undefined\<close> although the listings have two distinct
  sellers: the handler reads \<^verbatim>\<open>length\<close> on the query object before awaiting it.
\<close>

theorem stats_totalSellers_undefined:
  "get_stats world3 = respond 200 (Stats (Number 3) Undefined (Number (3400 / 3)))
   \<and> length (remdups (map seller (docs world3))) = 2"
  by code_simp

section \<open>What an update does to the creation date\<close>

lemma pid_apply_update: "pid (apply_update u p) = pid p"
  by (simp add: apply_update_def)

lemma dateAdded_apply_update:
  "\<not> is_set (u_dateAdded u) \<Longrightarrow> dateAdded (apply_update u p) = dateAdded p"
  by (cases "u_dateAdded u") (simp_all add: apply_update_def)

lemma updated_kept:
  assumes "confined sv" and "updated sv u p = Some p'"
  shows "pid p' = pid p \<and> (\<not> names_dateAdded u \<longrightarrow> dateAdded p' = dateAdded p)"
proof (cases "u_clauses u = []")
  case True
  with assms(2) have "p' = apply_update u p"
    by (simp add: updated_def split: if_splits)
  then show ?thesis
    by (simp add: pid_apply_update dateAdded_apply_update names_dateAdded_def)
next
  case False
  with assms(2) have eff: "clauses_effect sv (u_clauses u) (apply_update u p) = Some p'"
    by (simp add: updated_def split: if_splits)
  with assms(1) have "pid p' = pid (apply_update u p)"
    and "\<not> list_ex clause_names_dateAdded (u_clauses u) \<longrightarrow>
           dateAdded p' = dateAdded (apply_update u p)"
    unfolding confined_def by blast+
  then show ?thesis
    by (simp add: pid_apply_update dateAdded_apply_update names_dateAdded_def)
qed

lemma find_update_first:
  assumes "pid p' = j"
  shows "find (\<lambda>p. pid p = i) (update_first j p' ps)
           = (if i = j then map_option (\<lambda>p. p') (find (\<lambda>p. pid p = i) ps)
              else find (\<lambda>p. pid p = i) ps)"
  using assms by (induction ps) auto

lemma find_delete_first:
  "i \<noteq> j \<Longrightarrow> find (\<lambda>p. pid p = i) (delete_first j ps) = find (\<lambda>p. pid p = i) ps"
  by (induction ps) auto

lemma find_pid: "find (\<lambda>p. pid p = j) ps = Some p \<Longrightarrow> pid p = j"
  by (induction ps) (auto split: if_splits)

lemma lookup_append:
  "lookup i w = Some p \<Longrightarrow> docs w' = docs w @ qs \<Longrightarrow> lookup i w' = Some p"
  by (simp add: lookup_def find_append)

lemma lookup_same_docs: "docs w' = docs w \<Longrightarrow> lookup i w' = lookup i w"
  by (simp add: lookup_def)

lemma put_product_docs:
  "docs (snd (put_product sv ip u w)) = docs w
   \<or> (\<exists>j p p'. ip = ObjectId j \<and> find (\<lambda>p. pid p = j) (docs w) = Some p
         \<and> updated sv u p = Some p'
         \<and> docs (snd (put_product sv ip u w)) = update_first j p' (docs w))"
  by (cases ip)
    (auto simp: put_product_def Product_findByIdAndUpdate_def Let_def split: option.splits)

lemma docs_destroy_image: "docs (snd (destroy_image p w)) = docs w"
  by (simp add: destroy_image_def cloudinary_destroy_def split: option.splits)

lemma delete_product_docs:
  "docs (snd (delete_product ip w)) = docs w
   \<or> (\<exists>j. ip = ObjectId j \<and> docs (snd (delete_product ip w)) = delete_first j (docs w))"
proof (cases ip)
  case Uncastable
  then show ?thesis
    by (simp add: delete_product_def Product_findById_def)
next
  case (ObjectId j)
  show ?thesis
  proof (cases "Product_findById ip w")
    case (Inl x)
    then show ?thesis
      by (simp add: delete_product_def)
  next
    case (Inr found)
    show ?thesis
    proof (cases found)
      case None
      with Inr show ?thesis
        by (simp add: delete_product_def)
    next
      case (Some p)
      obtain r w1 where d: "destroy_image p w = (r, w1)"
        by (cases "destroy_image p w")
      then have w1: "docs w1 = docs w"
        using docs_destroy_image [of p w] by simp
      show ?thesis
      proof (cases r)
        case (Inl x)
        with Inr Some d w1 show ?thesis
          by (simp add: delete_product_def)
      next
        case (Inr u)
        with \<open>Product_findById ip w = Inr found\<close> Some d w1 ObjectId show ?thesis
          by (auto simp: delete_product_def Product_findByIdAndDelete_def Let_def
              split: if_splits)
      qed
    qed
  qed
qed

lemma handle_keeps_dateAdded:
  assumes "confined sv" and "lookup i w = Some p"
    and "\<not> sets_dateAdded i r" and "\<not> deletes i r"
  shows "\<exists>p'. lookup i (snd (handle sv r w)) = Some p' \<and> dateAdded p' = dateAdded p"
proof (cases r)
  case (PostProducts e req)
  have "docs (snd (post_products e req w)) = docs w
        \<or> (\<exists>q. docs (snd (post_products e req w)) = docs w @ [q])"
    using post_products_persisted [of e req w] by blast
  with assms(2) PostProducts show ?thesis
    using lookup_append [of i w p] lookup_same_docs [of "snd (post_products e req w)" w i]
    by auto
next
  case (PostProductsBase64 e req)
  have "docs (snd (post_products_base64 e req w)) = docs w
        \<or> (\<exists>q. docs (snd (post_products_base64 e req w)) = docs w @ [q])"
    using post_products_base64_persisted [of e req w] by blast
  with assms(2) PostProductsBase64 show ?thesis
    using lookup_append [of i w p] lookup_same_docs [of "snd (post_products_base64 e req w)" w i]
    by auto
next
  case (PutProduct ip u)
  from put_product_docs [of sv ip u w] show ?thesis
  proof
    assume "docs (snd (put_product sv ip u w)) = docs w"
    with assms(2) PutProduct show ?thesis
      by (simp add: lookup_def)
  next
    assume "\<exists>j q q'. ip = ObjectId j \<and> find (\<lambda>p. pid p = j) (docs w) = Some q
              \<and> updated sv u q = Some q'
              \<and> docs (snd (put_product sv ip u w)) = update_first j q' (docs w)"
    then obtain j q q' where j: "ip = ObjectId j"
      and q: "find (\<lambda>p. pid p = j) (docs w) = Some q"
      and q': "updated sv u q = Some q'"
      and after: "docs (snd (put_product sv ip u w)) = update_first j q' (docs w)"
      by blast
    from updated_kept [OF assms(1) q'] find_pid [OF q] have pid_q': "pid q' = j"
      and date_q': "\<not> names_dateAdded u \<longrightarrow> dateAdded q' = dateAdded q"
      by simp_all
    show ?thesis
    proof (cases "i = j")
      case True
      with assms(3) PutProduct j have "\<not> names_dateAdded u"
        by simp
      with date_q' have "dateAdded q' = dateAdded q"
        by simp
      moreover from True q assms(2) have "q = p"
        by (simp add: lookup_def)
      ultimately show ?thesis
        using PutProduct after True assms(2) pid_q'
        by (simp add: lookup_def find_update_first)
    next
      case False
      with assms(2) PutProduct after pid_q' show ?thesis
        by (simp add: lookup_def find_update_first)
    qed
  qed
next
  case (DeleteProduct ip)
  from delete_product_docs [of ip w] show ?thesis
  proof
    assume "docs (snd (delete_product ip w)) = docs w"
    with assms(2) DeleteProduct show ?thesis
      by (simp add: lookup_def)
  next
    assume "\<exists>j. ip = ObjectId j \<and> docs (snd (delete_product ip w)) = delete_first j (docs w)"
    then obtain j where j: "ip = ObjectId j"
      "docs (snd (delete_product ip w)) = delete_first j (docs w)"
      by blast
    with assms(4) DeleteProduct have "i \<noteq> j"
      by auto
    with assms(2) DeleteProduct j show ?thesis
      by (simp add: lookup_def find_delete_first)
  qed
qed (use assms(2) in simp_all)

text \<open>
  C5, as amended.  The \<^verbatim>\<open>dateAdded\<close> of a listing is the value set at creation
  after every sequence of requests to the document-store implementation in which no
  PUT /api/products/:id on that listing names \<^verbatim>\<open>dateAdded\<close> in its body, as a
  field, as the path of an update operator or as the target of a \<^verbatim>\<open>$rename\<close>,
  and which does not delete the listing: creates, deletes of other listings,
  reads, and updates that name other fields leave it as it was.  This supposes of
  the database that an update changes no \<^verbatim>\<open>_id\<close> and changes \<^verbatim>\<open>dateAdded\<close>
  only when it names it.
\<close>

theorem dateAdded_kept:
  assumes "confined sv"
    and "lookup i w = Some p"
    and "\<forall>r \<in> set rs. \<not> sets_dateAdded i r \<and> \<not> deletes i r"
  shows "\<exists>p'. lookup i (serve sv rs w) = Some p' \<and> dateAdded p' = dateAdded p"
  using assms(2,3)
proof (induction rs arbitrary: w p)
  case Nil
  then show ?case by simp
next
  case (Cons r rs)
  from Cons.prems obtain p1 where
    p1: "lookup i (snd (handle sv r w)) = Some p1" "dateAdded p1 = dateAdded p"
    using handle_keeps_dateAdded [OF assms(1), of i w p r] by auto
  from Cons.prems(2) have "\<forall>r \<in> set rs. \<not> sets_dateAdded i r \<and> \<not> deletes i r"
    by simp
  from Cons.IH [OF p1(1) this] p1(2) show ?case
    by simp
qed

theorem dateAdded_kept_witness:
  "map_option dateAdded
     (lookup 7 (serve services0
        [PutProduct (ObjectId 7) (no_update\<lparr>u_price := Set (Finite 1500)\<rparr>),
         PutProduct (ObjectId 7) inc_price_body,
         DeleteProduct (ObjectId 9), GetStats] world3))
   = Some (dateAdded desk_listing)"
proof -
  have h0: "confined services0"
  proof -
    have "pid p' = pid p \<and> dateAdded p' = dateAdded p" if "inc_price cs p = Some p'" for cs p p'
      using that by (induction cs p rule: inc_price.induct) (auto split: if_splits)
    then show ?thesis
      by (simp add: confined_def services0_def)
  qed
  have h1: "lookup 7 world3 = Some desk_listing"
    by code_simp
  have h2: "\<forall>r \<in> set [PutProduct (ObjectId 7) (no_update\<lparr>u_price := Set (Finite 1500)\<rparr>),
                   PutProduct (ObjectId 7) inc_price_body,
                   DeleteProduct (ObjectId 9), GetStats].
         \<not> sets_dateAdded 7 r \<and> \<not> deletes 7 r"
    by (simp add: no_update_def inc_price_body_def names_dateAdded_def under_dateAdded_def str_def)
  from dateAdded_kept [OF h0 h1 h2] show ?thesis
    by auto
qed

text \<open>
  C5 as stated fails: a PUT whose body has a \<^verbatim>\<open>dateAdded\<close> replaces the creation
  date of the listing.
\<close>

theorem dateAdded_kept_counterexample:
  "lookup 7 world1 = Some desk_listing
   \<and> dateAdded desk_listing = 1700000000000
   \<and> map_option dateAdded
        (lookup 7 (serve services0 [PutProduct (ObjectId 7) (no_update\<lparr>u_dateAdded := Set 5\<rparr>)] world1))
       = Some 5"
  by code_simp

section \<open>Two writers racing on the file\<close>

lemma findIndex_less: "findIndex P xs = Some i \<Longrightarrow> i < length xs"
  by (induction xs arbitrary: i) (auto split: if_splits)

lemma splice1_neq: "i < length xs \<Longrightarrow> splice1 i xs \<noteq> xs"
proof
  assume "i < length xs" and "splice1 i xs = xs"
  then have "length (splice1 i xs) = length xs"
    by simp
  with \<open>i < length xs\<close> show False
    by (simp add: splice1_def)
qed

lemma start_writing:
  assumes "start m g = Writing pw"
  shows "token pw = (case github_get g of Inr f \<Rightarrow> Some (snd f) | Inl x \<Rightarrow> None)
         \<and> status (on_success pw) = 200 \<and> status (on_failure pw) = 500
         \<and> (\<forall>ps. api_ok g \<and> products_json g = Some ps \<longrightarrow> content pw \<noteq> ps)"
proof (cases m)
  case (Create e req)
  with assms show ?thesis
    by (auto simp: post_products_file_start_def Let_def respond_def github_get_def
        split: if_splits sum.splits bool.splits)
next
  case (Delete s)
  with assms show ?thesis
    by (auto simp: delete_product_file_start_def Let_def respond_def github_get_def
        split: if_splits sum.splits option.splits dest!: findIndex_less splice1_neq)
qed

lemma token_read:
  "api_ok g \<Longrightarrow>
     (case github_get g of Inr f \<Rightarrow> Some (snd f) | Inl x \<Rightarrow> None) = map_option BlobSha (products_json g)"
  by (simp add: github_get_def split: option.splits)

lemma finish_accepted:
  assumes "finish pw g = (r, g1)" and "status r = 200" and "status (on_failure pw) = 500"
  shows "api_ok g \<and> token pw = map_option BlobSha (products_json g)
         \<and> g1 = g\<lparr>puts := Suc (puts g), products_json := Some (content pw)\<rparr>"
  using assms
  by (auto simp: finish_def github_put_def Let_def split: if_splits)

lemma finish_rejected:
  assumes "api_ok g" and "token pw \<noteq> map_option BlobSha (products_json g)"
  shows "finish pw g = (on_failure pw, g\<lparr>puts := Suc (puts g)\<rparr>)"
  using assms by (simp add: finish_def github_put_def Let_def)

text \<open>
  C8.  In the file-backed implementation a mutating request (create or delete)
  sends, with its write of \<^verbatim>\<open>products.json\<close>, the version token it read at its
  start, or none when it could not read the file.  The repository accepts a write
  only if its token is that of the current content.  When two such requests have
  both read the same state and the first one's write is accepted, the write of the
  second one, which holds the stale token, is answered with the failure response
  (500), the file keeps the first writer's content, and the second request has sent
  exactly one write: there is no retry.
\<close>

theorem stale_writer_rejected:
  assumes "start ma g = Writing a" and "start mb g = Writing b"
    and "finish a g = (ra, g1)" and "status ra = 200"
    and "finish b g1 = (rb, g2)"
  shows "token a = (case github_get g of Inr f \<Rightarrow> Some (snd f) | Inl x \<Rightarrow> None)
       \<and> token b = (case github_get g of Inr f \<Rightarrow> Some (snd f) | Inl x \<Rightarrow> None)
       \<and> products_json g1 = Some (content a)
       \<and> rb = on_failure b \<and> status rb = 500
       \<and> products_json g2 = Some (content a)
       \<and> puts g2 = Suc (puts g1)"
proof -
  note sa = start_writing [OF assms(1)] and sb = start_writing [OF assms(2)]
  from finish_accepted [OF assms(3,4)] sa have
    ok: "api_ok g" and ta: "token a = map_option BlobSha (products_json g)"
    and g1: "g1 = g\<lparr>puts := Suc (puts g), products_json := Some (content a)\<rparr>"
    by blast+
  from sb ok have tb: "token b = map_option BlobSha (products_json g)"
    by (simp add: token_read)
  have changed: "map_option BlobSha (products_json g) \<noteq> Some (BlobSha (content a))"
    using sa ok by (cases "products_json g") auto
  have "api_ok g1" "token b \<noteq> map_option BlobSha (products_json g1)"
    using ok g1 tb changed by simp_all
  from finish_rejected [OF this] assms(5) have
    "rb = on_failure b" "g2 = g1\<lparr>puts := Suc (puts g1)\<rparr>"
    by simp_all
  with sa sb g1 show ?thesis
    by simp
qed

theorem stale_writer_rejected_witness:
  "start (Create env1 lamp_json) one_file = Writing lamp_write
   \<and> start (Delete (str ''1700000000000'')) one_file = Writing desk_removal
   \<and> finish lamp_write one_file = (on_success lamp_write, two_file)
   \<and> status (on_success lamp_write) = 200
   \<and> finish desk_removal two_file = (on_failure desk_removal, two_file\<lparr>puts := 3\<rparr>)
   \<and> status (on_failure desk_removal) = 500
   \<and> products_json (two_file\<lparr>puts := 3\<rparr>) = Some (content lamp_write)
   \<and> puts (two_file\<lparr>puts := 3\<rparr>) = Suc (puts two_file)"
proof -
  have h1: "start (Create env1 lamp_json) one_file = Writing lamp_write"
    by code_simp
  have h2: "start (Delete (str ''1700000000000'')) one_file = Writing desk_removal"
    by code_simp
  have h3: "finish lamp_write one_file = (on_success lamp_write, two_file)"
    by code_simp
  have h4: "status (on_success lamp_write) = 200"
    by code_simp
  have h5: "finish desk_removal two_file = (on_failure desk_removal, two_file\<lparr>puts := 3\<rparr>)"
    by code_simp
  from stale_writer_rejected [OF h1 h2 h3 h4 h5] h1 h2 h3 h4 h5 show ?thesis
    by simp
qed

end
